theory Spec2Isabelle
  imports Main "HOL-Library.Word"
begin

section \<open>Go errors\<close>

text \<open>
  A Go \<^verbatim>\<open>error\<close> is a value. \<open>Errorf\<close> is an error made by \<^verbatim>\<open>fmt.Errorf\<close> without a
  wrapped cause, \<open>Wrapf p e\<close> is \<^verbatim>\<open>fmt.Errorf(p + "%w", e)\<close>, and \<open>StatusError reason msg\<close>
  is an error answered by the API server (the only errors that carry a reason).
\<close>

datatype error = Errorf string | Wrapf string error | StatusError string string

fun Error :: "error \<Rightarrow> string" where
  "Error (Errorf s) = s"
| "Error (Wrapf p e) = p @ Error e"
| "Error (StatusError reason msg) = msg"

fun IsNotFound :: "error \<Rightarrow> bool" where
  "IsNotFound (Errorf s) = False"
| "IsNotFound (Wrapf p e) = IsNotFound e"
| "IsNotFound (StatusError reason msg) = (reason = ''NotFound'')"

text \<open>Indexing a Go map of strings: the zero value for an absent key.\<close>

definition map_index :: "(string \<rightharpoonup> string) \<Rightarrow> string \<Rightarrow> string" where
  "map_index m k = (case m k of None \<Rightarrow> '''' | Some v \<Rightarrow> v)"

fun strings_Join :: "string list \<Rightarrow> string \<Rightarrow> string" where
  "strings_Join [] sep = ''''"
| "strings_Join [x] sep = x"
| "strings_Join (x # y # ys) sep = x @ sep @ strings_Join (y # ys) sep"

section \<open>infra/mctrl/mctrl.go: overlays, Status and Ads\<close>

definition NotAppliedOverlay :: string where
  "NotAppliedOverlay = ''''"

definition BaseOverlay :: string where
  "BaseOverlay = ''base''"

definition ScaleDownOverlay :: string where
  "ScaleDownOverlay = ''scale-down''"

text \<open>
  The condition types of the platform: \<^verbatim>\<open>appsv1.DeploymentCondition\<close> and
  \<^verbatim>\<open>metav1.Condition\<close> share five fields and differ in one each.
\<close>

record CondBase =
  condType :: string
  condStatus :: string
  LastTransitionTime :: string
  condReason :: string
  condMessage :: string

record DeploymentCondition = CondBase +
  LastUpdateTime :: string

record Condition = CondBase +
  ObservedGeneration :: "64 word"

record Status =
  Ready :: bool
  Message :: string
  Conditions :: "Condition list"

text \<open>\<^verbatim>\<open>Ads\<close> holds a Go map, which is nil (\<open>None\<close>) until the first \<^verbatim>\<open>Put\<close>.\<close>

record Ads =
  dict :: "(string \<rightharpoonup> string) option"

definition Ads_zero :: Ads where
  "Ads_zero = \<lparr>dict = None\<rparr>"

text \<open>\<^verbatim>\<open>_, ok := a.dict[idx]\<close>; reading a nil map finds nothing.\<close>

definition dict_ok :: "Ads \<Rightarrow> string \<Rightarrow> bool" where
  "dict_ok a idx = (case dict a of None \<Rightarrow> False | Some m \<Rightarrow> m idx \<noteq> None)"

fun Contains_loop :: "Ads \<Rightarrow> string list \<Rightarrow> string list \<Rightarrow> string list" where
  "Contains_loop a [] missing = missing"
| "Contains_loop a (idx # indexes) missing =
     (if dict_ok a idx then Contains_loop a indexes missing
      else Contains_loop a indexes (missing @ [idx]))"

definition Contains :: "Ads \<Rightarrow> string list \<Rightarrow> error option" where
  "Contains a indexes =
     (let missing = Contains_loop a indexes [] in
      if length missing > 0
      then Some (Errorf (strings_Join missing '','' @ '' indexes not advertised''))
      else None)"

definition Get :: "Ads \<Rightarrow> string \<Rightarrow> string" where
  "Get a idx = (case dict a of None \<Rightarrow> '''' | Some m \<Rightarrow> map_index m idx)"

definition Delete :: "Ads \<Rightarrow> string \<Rightarrow> Ads" where
  "Delete a idx = (case dict a of None \<Rightarrow> a | Some m \<Rightarrow> a\<lparr>dict := Some (m(idx := None))\<rparr>)"

definition Put :: "Ads \<Rightarrow> string \<Rightarrow> string \<Rightarrow> Ads" where
  "Put a idx val =
     (let m = (case dict a of None \<Rightarrow> Map.empty | Some m \<Rightarrow> m) in
      a\<lparr>dict := Some (m(idx \<mapsto> val))\<rparr>)"

section \<open>The objects of the platform and its client\<close>

record OwnerReference =
  RefAPIVersion :: string
  RefKind :: string
  RefName :: string
  RefUID :: string

record ObjectMeta =
  Name :: string
  Namespace :: string
  UID :: string
  OwnerReferences :: "OwnerReference list"

text \<open>Of a replica set and of a pod the readiness check reads the metadata only.\<close>

type_synonym ReplicaSet = ObjectMeta
type_synonym Pod = ObjectMeta

text \<open>
  \<^verbatim>\<open>appsv1.Deployment\<close>: \<open>Replicas\<close> is \<^verbatim>\<open>Spec.Replicas\<close>, a \<^verbatim>\<open>*int32\<close>; the other three
  fields are those of \<^verbatim>\<open>Status\<close>.
\<close>

record Deployment = ObjectMeta +
  Replicas :: "32 word option"
  AvailableReplicas :: "32 word"
  UpdatedReplicas :: "32 word"
  DepConditions :: "DeploymentCondition list"

record Secret = ObjectMeta +
  Data :: "string \<rightharpoonup> string"
  StringData :: "string \<rightharpoonup> string"

datatype verb = VGet | VList | VCreate

text \<open>
  The remote store behind \<^verbatim>\<open>client.Client\<close>, with the source of randomness of
  \<^verbatim>\<open>uuid.New\<close>. \<open>Faults\<close> makes a call of a verb on a kind of object fail, whatever the store
  holds. Objects are found under their namespace and name.
\<close>

record world =
  Secrets :: "string \<times> string \<rightharpoonup> Secret"
  Deployments :: "string \<times> string \<rightharpoonup> Deployment"
  ReplicaSets :: "ReplicaSet list"
  Pods :: "Pod list"
  Faults :: "verb \<Rightarrow> string \<Rightarrow> error option"
  Rand :: "nat \<Rightarrow> string"
  RandPos :: nat

definition not_found :: "string \<Rightarrow> string \<Rightarrow> error" where
  "not_found kind name = StatusError ''NotFound'' (kind @ '' '' @ name @ '' not found'')"

definition client_Get_Secret :: "world \<Rightarrow> string \<times> string \<Rightarrow> error + Secret" where
  "client_Get_Secret w nsn =
     (case Faults w VGet ''Secret'' of
        Some err \<Rightarrow> Inl err
      | None \<Rightarrow> (case Secrets w nsn of
                   None \<Rightarrow> Inl (not_found ''secrets'' (snd nsn))
                 | Some sct \<Rightarrow> Inr sct))"

text \<open>
  Creating a secret: the server refuses a name that exists, and stores the \<^verbatim>\<open>stringData\<close>
  of the request merged into \<^verbatim>\<open>data\<close>.
\<close>

definition client_Create_Secret :: "world \<Rightarrow> Secret \<Rightarrow> error option \<times> world" where
  "client_Create_Secret w sct =
     (case Faults w VCreate ''Secret'' of
        Some err \<Rightarrow> (Some err, w)
      | None \<Rightarrow>
          (if Secrets w (Namespace sct, Name sct) \<noteq> None
           then (Some (StatusError ''AlreadyExists''
                   (''secrets '' @ Name sct @ '' already exists'')), w)
           else (None, w\<lparr>Secrets := (Secrets w)((Namespace sct, Name sct) \<mapsto>
                   sct\<lparr>Data := Data sct ++ StringData sct, StringData := Map.empty\<rparr>)\<rparr>)))"

definition client_Get_Deployment :: "world \<Rightarrow> string \<times> string \<Rightarrow> error + Deployment" where
  "client_Get_Deployment w nsn =
     (case Faults w VGet ''Deployment'' of
        Some err \<Rightarrow> Inl err
      | None \<Rightarrow> (case Deployments w nsn of
                   None \<Rightarrow> Inl (not_found ''deployments.apps'' (snd nsn))
                 | Some dep \<Rightarrow> Inr dep))"

text \<open>
  \<^verbatim>\<open>client.List\<close> with \<^verbatim>\<open>client.InNamespace(ns)\<close>: the objects of the namespace \<open>ns\<close>, and
  those of every namespace when \<open>ns\<close> is the empty string.
\<close>

definition client_List_ReplicaSets :: "world \<Rightarrow> string \<Rightarrow> error + ReplicaSet list" where
  "client_List_ReplicaSets w ns =
     (case Faults w VList ''ReplicaSet'' of
        Some err \<Rightarrow> Inl err
      | None \<Rightarrow> Inr (filter (\<lambda>rs. ns = [] \<or> Namespace rs = ns) (ReplicaSets w)))"

definition client_List_Pods :: "world \<Rightarrow> string \<Rightarrow> error + Pod list" where
  "client_List_Pods w ns =
     (case Faults w VList ''Pod'' of
        Some err \<Rightarrow> Inl err
      | None \<Rightarrow> Inr (filter (\<lambda>pod. ns = [] \<or> Namespace pod = ns) (Pods w)))"

definition uuid_New :: "world \<Rightarrow> string \<times> world" where
  "uuid_New w = (Rand w (RandPos w), w\<lparr>RandPos := Suc (RandPos w)\<rparr>)"

section \<open>infra/resource: ToCondition and ToObject\<close>

text \<open>The JSON encoder and decoder that \<^verbatim>\<open>ToCondition\<close> calls are the library's.\<close>

record json_codec =
  json_Marshal :: "DeploymentCondition \<Rightarrow> error + string"
  json_Unmarshal_Condition :: "string \<Rightarrow> error + Condition"

definition ToCondition :: "json_codec \<Rightarrow> DeploymentCondition \<Rightarrow> error + Condition" where
  "ToCondition js inp =
     (case json_Marshal js inp of
        Inl err \<Rightarrow> Inl err
      | Inr dt \<Rightarrow> (case json_Unmarshal_Condition js dt of
                    Inl err \<Rightarrow> Inl err
                  | Inr cond \<Rightarrow> Inr cond))"

record Gvk =
  Group :: string
  Version :: string
  Kind :: string

datatype GoType =
  corev1_Secret | corev1_Service | corev1_ServiceAccount | corev1_PersistentVolumeClaim
  | appsv1_Deployment | asclv1_HorizontalPodAutoscaler

text \<open>A \<^verbatim>\<open>client.Object\<close>: a typed structure with its metadata; \<open>Raw\<close> is all the rest.\<close>

record Object = ObjectMeta +
  GoType :: GoType
  Raw :: string

definition zero_Object :: "GoType \<Rightarrow> Object" where
  "zero_Object t =
     \<lparr>Name = '''', Namespace = '''', UID = '''', OwnerReferences = [], GoType = t, Raw = ''''\<rparr>"

record Resource =
  GetGvk :: Gvk
  Content :: string

text \<open>The \<^verbatim>\<open>switch\<close> of \<^verbatim>\<open>ToObject\<close>; \<open>None\<close> is its \<^verbatim>\<open>default\<close> case.\<close>

definition switch_Gvk :: "Gvk \<Rightarrow> GoType option" where
  "switch_Gvk g =
     (if g = \<lparr>Group = '''', Version = ''v1'', Kind = ''Secret''\<rparr> then Some corev1_Secret
      else if g = \<lparr>Group = '''', Version = ''v1'', Kind = ''Service''\<rparr> then Some corev1_Service
      else if g = \<lparr>Group = '''', Version = ''v1'', Kind = ''ServiceAccount''\<rparr>
        then Some corev1_ServiceAccount
      else if g = \<lparr>Group = '''', Version = ''v1'', Kind = ''PersistentVolumeClaim''\<rparr>
        then Some corev1_PersistentVolumeClaim
      else if g = \<lparr>Group = ''apps'', Version = ''v1'', Kind = ''Deployment''\<rparr>
        then Some appsv1_Deployment
      else if g = \<lparr>Group = ''autoscaling'', Version = ''v2beta2'',
                    Kind = ''HorizontalPodAutoscaler''\<rparr>
        then Some asclv1_HorizontalPodAutoscaler
      else None)"

text \<open>
  What \<^verbatim>\<open>KustCtrl\<close> calls outside this repository's sources: the loader of the embedded
  files, the virtual file system, the YAML and JSON codecs, the template compositor, the
  formatting of a \<^verbatim>\<open>Gvk\<close> by \<^verbatim>\<open>%+v\<close>, \<^verbatim>\<open>path.Join\<close> and the client's \<^verbatim>\<open>Patch\<close>. \<open>'fs\<close> is
  the virtual file system and \<open>'w\<close> the state that mutators and the client act on.
\<close>

type_synonym embed_FS = "(string \<times> string) list"

text \<open>
  \<^verbatim>\<open>types.Kustomization\<close>: the two fields the mutators of this repository write, a generated
  secret being its name and its literal sources, and all the others as one value.
\<close>

record Kustomization =
  NamePrefix :: string
  SecretGenerator :: "(string \<times> string list) list"
  Others :: string

record ('fs, 'w) externals =
  fsloader_Load :: "embed_FS \<Rightarrow> error + 'fs"
  fs_ReadFile :: "'fs \<Rightarrow> string \<Rightarrow> error + string"
  fs_WriteFile :: "'fs \<Rightarrow> string \<Rightarrow> string \<Rightarrow> error + 'fs"
  yaml_Unmarshal :: "string \<Rightarrow> error + Kustomization"
  yaml_Marshal :: "Kustomization \<Rightarrow> error + string"
  path_Join :: "string \<Rightarrow> string \<Rightarrow> string"
  krusty_Run :: "'fs \<Rightarrow> string \<Rightarrow> error + Resource list"
  fmt_Gvk :: "Gvk \<Rightarrow> string"
  MarshalJSON :: "Resource \<Rightarrow> error + string"
  json_Unmarshal :: "string \<Rightarrow> Object \<Rightarrow> error + Object"
  client_Patch :: "'w \<Rightarrow> Object \<Rightarrow> string \<Rightarrow> error option \<times> 'w"

definition ToObject :: "('fs, 'w) externals \<Rightarrow> Resource \<Rightarrow> error + Object" where
  "ToObject ext res =
     (case switch_Gvk (GetGvk res) of
        None \<Rightarrow> Inl (Errorf (''unmapped type '' @ fmt_Gvk ext (GetGvk res)))
      | Some t \<Rightarrow>
          (case MarshalJSON ext res of
             Inl err \<Rightarrow> Inl (Wrapf ''error marshaling resource: '' err)
           | Inr rawjson \<Rightarrow>
               (case json_Unmarshal ext rawjson (zero_Object t) of
                  Inl err \<Rightarrow> Inl (Wrapf ''error unmarshaling object: '' err)
                | Inr obj \<Rightarrow> Inr obj)))"

section \<open>infra/mctrl/kustmctrl.go: KustCtrl\<close>

definition BaseKustomizationPath :: string where
  "BaseKustomizationPath = ''/kustomize/base/kustomization.yaml''"

text \<open>
  A mutator is a Go closure: it returns an error or has changed what it was given, and it
  may act on the state \<open>'w\<close>. A template-level mutator is a method value bound to the
  component that embeds the \<^verbatim>\<open>KustCtrl\<close>; it receives the fields \<open>'s\<close> of that component
  as they are when it is called. The client \<^verbatim>\<open>cli\<close> is the state \<open>'w\<close> itself.
\<close>

type_synonym ('s, 'w) KMutator =
  "'s \<Rightarrow> 'w \<Rightarrow> Kustomization \<Rightarrow> Ads \<Rightarrow> (error + Kustomization) \<times> 'w"

type_synonym 'w OMutator = "'w \<Rightarrow> Object \<Rightarrow> (error + Object) \<times> 'w"

record ('s, 'w) KustCtrl =
  from' :: embed_FS
  overlay :: string
  fowner :: string
  KMutators :: "('s, 'w) KMutator list"
  OMutators :: "'w OMutator list"

definition NewKustCtrl :: "embed_FS \<Rightarrow> ('s, 'w) KustCtrl" where
  "NewKustCtrl emb =
     \<lparr>from' = emb, overlay = [], fowner = ''undefined'', KMutators = [], OMutators = []\<rparr>"

definition Overlay :: "('s, 'w) KustCtrl \<Rightarrow> string" where
  "Overlay k = overlay k"

text \<open>The loop over \<^verbatim>\<open>k.KMutators\<close> in \<^verbatim>\<open>mutateKustomization\<close>.\<close>

fun KMutators_loop ::
  "('s, 'w) KMutator list \<Rightarrow> 's \<Rightarrow> 'w \<Rightarrow> Kustomization \<Rightarrow> Ads \<Rightarrow> (error + Kustomization) \<times> 'w"
where
  "KMutators_loop [] self w kust ads = (Inr kust, w)"
| "KMutators_loop (mut # muts) self w kust ads =
     (case mut self w kust ads of
        (Inl err, w') \<Rightarrow> (Inl (Wrapf ''error mutating kustomization: '' err), w')
      | (Inr kust', w') \<Rightarrow> KMutators_loop muts self w' kust' ads)"

definition mutateKustomization ::
  "('fs, 'w) externals \<Rightarrow> 's \<Rightarrow> ('s, 'w) KustCtrl \<Rightarrow> 'w \<Rightarrow> 'fs \<Rightarrow> Ads \<Rightarrow> (error + 'fs) \<times> 'w"
where
  "mutateKustomization ext self k w fs ads =
     (if length (KMutators k) = 0 then (Inr fs, w)
      else
        (case fs_ReadFile ext fs BaseKustomizationPath of
           Inl err \<Rightarrow> (Inl (Wrapf ''error reading base kustomization: '' err), w)
         | Inr olddt \<Rightarrow>
        (case yaml_Unmarshal ext olddt of
           Inl err \<Rightarrow> (Inl (Wrapf ''error parsing base kustomization: '' err), w)
         | Inr kust \<Rightarrow>
        (case KMutators_loop (KMutators k) self w kust ads of
           (Inl err, w') \<Rightarrow> (Inl err, w')
         | (Inr kust', w') \<Rightarrow>
        (case yaml_Marshal ext kust' of
           Inl err \<Rightarrow> (Inl (Wrapf ''error marshaling base kustomization: '' err), w')
         | Inr newdt \<Rightarrow>
        (case fs_WriteFile ext fs BaseKustomizationPath newdt of
           Inl err \<Rightarrow> (Inl (Wrapf ''error writing base kustomization: '' err), w')
         | Inr fs' \<Rightarrow> (Inr fs', w')))))))"

text \<open>The loop over \<^verbatim>\<open>res.Resources()\<close> in \<^verbatim>\<open>parse\<close>.\<close>

fun Resources_loop ::
  "('fs, 'w) externals \<Rightarrow> Resource list \<Rightarrow> Object list \<Rightarrow> error + Object list"
where
  "Resources_loop ext [] objs = Inr objs"
| "Resources_loop ext (rsc # rscs) objs =
     (case ToObject ext rsc of
        Inl err \<Rightarrow> Inl (Wrapf ''error parsing object: '' err)
      | Inr obj \<Rightarrow> Resources_loop ext rscs (objs @ [obj]))"

definition parse ::
  "('fs, 'w) externals \<Rightarrow> 's \<Rightarrow> ('s, 'w) KustCtrl \<Rightarrow> 'w \<Rightarrow> string \<Rightarrow> Ads
     \<Rightarrow> (error + Object list) \<times> 'w"
where
  "parse ext self k w ovl ads =
     (case fsloader_Load ext (from' k) of
        Inl err \<Rightarrow> (Inl (Wrapf ''unable to load overlay: '' err), w)
      | Inr virtfs \<Rightarrow>
     (case mutateKustomization ext self k w virtfs ads of
        (Inl err, w') \<Rightarrow> (Inl (Wrapf ''error setting object name prefix: '' err), w')
      | (Inr virtfs', w') \<Rightarrow>
     (case krusty_Run ext virtfs' (path_Join ext ''kustomize'' ovl) of
        Inl err \<Rightarrow> (Inl (Wrapf ''error running kustomize: '' err), w')
      | Inr res \<Rightarrow> (Resources_loop ext res [], w'))))"

text \<open>The inner loop of \<^verbatim>\<open>Apply\<close>, over \<^verbatim>\<open>k.OMutators\<close>, for one object.\<close>

fun OMutators_loop :: "'w OMutator list \<Rightarrow> 'w \<Rightarrow> Object \<Rightarrow> (error + Object) \<times> 'w" where
  "OMutators_loop [] w obj = (Inr obj, w)"
| "OMutators_loop (mut # muts) w obj =
     (case mut w obj of
        (Inl err, w') \<Rightarrow> (Inl (Wrapf ''error mutating object: '' err), w')
      | (Inr obj', w') \<Rightarrow> OMutators_loop muts w' obj')"

text \<open>The outer loop of \<^verbatim>\<open>Apply\<close>, over the parsed objects.\<close>

fun objs_loop ::
  "('fs, 'w) externals \<Rightarrow> ('s, 'w) KustCtrl \<Rightarrow> 'w \<Rightarrow> Object list \<Rightarrow> error option \<times> 'w"
where
  "objs_loop ext k w [] = (None, w)"
| "objs_loop ext k w (obj # objs) =
     (case OMutators_loop (OMutators k) w obj of
        (Inl err, w') \<Rightarrow> (Some err, w')
      | (Inr obj', w') \<Rightarrow>
          (case client_Patch ext w' obj' (fowner k) of
             (Some err, w'') \<Rightarrow> (Some (Wrapf ''error patching object: '' err), w'')
           | (None, w'') \<Rightarrow> objs_loop ext k w'' objs))"

text \<open>
  \<^verbatim>\<open>Apply\<close> returns its error, the controller as it has left it, and the state.
\<close>

definition Apply ::
  "('fs, 'w) externals \<Rightarrow> 's \<Rightarrow> ('s, 'w) KustCtrl \<Rightarrow> 'w \<Rightarrow> string \<Rightarrow> Ads
     \<Rightarrow> error option \<times> ('s, 'w) KustCtrl \<times> 'w"
where
  "Apply ext self k w ovl ad =
     (case parse ext self k w ovl ad of
        (Inl err, w') \<Rightarrow> (Some (Wrapf ''error parsing kustomize files: '' err), k, w')
      | (Inr objs, w') \<Rightarrow>
          (case objs_loop ext k w' objs of
             (Some err, w'') \<Rightarrow> (Some err, k, w'')
           | (None, w'') \<Rightarrow> (None, k\<lparr>overlay := ovl\<rparr>, w'')))"

text \<open>The options of the three components, and the object-level mutators they register.\<close>

datatype Option = WithOwnerReference OwnerReference | WithNamespace string | WithNamePrefix string

definition owner_mutator :: "OwnerReference \<Rightarrow> 'w OMutator" where
  "owner_mutator oref w obj =
     (let orefs = OwnerReferences obj;
          orefs = orefs @ [oref]
      in (Inr (obj\<lparr>OwnerReferences := orefs\<rparr>), w))"

definition namespace_mutator :: "string \<Rightarrow> 'w OMutator" where
  "namespace_mutator ns w obj = (Inr (obj\<lparr>Namespace := ns\<rparr>), w)"

text \<open>
  The fields of a component next to its embedded \<^verbatim>\<open>*mctrl.KustCtrl\<close>. The client is the
  state; \<open>kfiles\<close>, the embedded files of each package, is given to \<open>New\<close>.
\<close>

record Fields =
  namespace :: string
  namePrefix :: string

text \<open>The loop of \<^verbatim>\<open>Status\<close> over \<^verbatim>\<open>dep.Status.Conditions\<close>; \<open>wrap\<close> makes the error returned.\<close>

fun Conditions_loop ::
  "json_codec \<Rightarrow> (error \<Rightarrow> error) \<Rightarrow> DeploymentCondition list \<Rightarrow> Condition list
     \<Rightarrow> error + Condition list"
where
  "Conditions_loop js wrap [] conds = Inr conds"
| "Conditions_loop js wrap (cond # rest) conds =
     (case ToCondition js cond of
        Inl err \<Rightarrow> Inl (wrap err)
      | Inr mv1cond \<Rightarrow> Conditions_loop js wrap rest (conds @ [mv1cond]))"

section \<open>ctrls/postgres: the database component\<close>

record PgFields = Fields +
  ownerRef :: "OwnerReference option"

record Postgres = PgFields +
  KustCtrl :: "(PgFields, world) KustCtrl"

definition ensurePsqlSecretData ::
  "'a PgFields_scheme \<Rightarrow> world \<Rightarrow> (error + string \<times> string) \<times> world"
where
  "ensurePsqlSecretData p w =
     (let nsn = (namespace p, namePrefix p @ ''-pgsql-access-data'') in
      case client_Get_Secret w nsn of
        Inr sct \<Rightarrow> (Inr (map_index (Data sct) ''pass'', map_index (Data sct) ''rootpass''), w)
      | Inl err \<Rightarrow>
          if \<not> IsNotFound err
          then (Inl (Wrapf ''error reading pgsql access data: '' err), w)
          else
            (let (pass, w1) = uuid_New w;
                 (rootpass, w2) = uuid_New w1;
                 data = [''pass'' \<mapsto> pass, ''rootpass'' \<mapsto> rootpass];
                 sct = \<lparr>Name = snd nsn, Namespace = fst nsn, UID = [],
                        OwnerReferences = (case ownerRef p of None \<Rightarrow> [] | Some oref \<Rightarrow> [oref]),
                        Data = Map.empty, StringData = data\<rparr>
             in (case client_Create_Secret w2 sct of
                   (Some err, w3) \<Rightarrow> (Inl (Wrapf ''error creating pgsql secret data: '' err), w3)
                 | (None, w3) \<Rightarrow>
                     (Inr (map_index data ''pass'', map_index data ''rootpass''), w3))))"

definition Postgres_mutateKustomization :: "(PgFields, world) KMutator" where
  "Postgres_mutateKustomization p w kust ad =
     (case ensurePsqlSecretData p w of
        (Inl err, w') \<Rightarrow> (Inl (Wrapf ''error ensuring pgsql secret data: '' err), w')
      | (Inr (pass, rootpass), w') \<Rightarrow>
          (let sctcontent =
                 [''database-username=user'',
                  ''database-name=database'',
                  ''database-password='' @ pass,
                  ''database-root-password='' @ rootpass]
           in (Inr (kust\<lparr>NamePrefix := namePrefix p @ ''-'',
                          SecretGenerator := [(''postgres-config-secret'', sctcontent)]\<rparr>), w')))"

fun Postgres_Option :: "Option \<Rightarrow> Postgres \<Rightarrow> Postgres" where
  "Postgres_Option (WithOwnerReference oref) p =
     p\<lparr>ownerRef := Some oref,
       Postgres.KustCtrl := (Postgres.KustCtrl p)
         \<lparr>OMutators := OMutators (Postgres.KustCtrl p) @ [owner_mutator oref]\<rparr>\<rparr>"
| "Postgres_Option (WithNamespace ns) p =
     p\<lparr>namespace := ns,
       Postgres.KustCtrl := (Postgres.KustCtrl p)
         \<lparr>OMutators := OMutators (Postgres.KustCtrl p) @ [namespace_mutator ns]\<rparr>\<rparr>"
| "Postgres_Option (WithNamePrefix prefix) p = p\<lparr>namePrefix := prefix\<rparr>"

definition Postgres_New :: "embed_FS \<Rightarrow> Option list \<Rightarrow> Postgres" where
  "Postgres_New kfiles opts =
     (let pg = \<lparr>namespace = ''default'', namePrefix = ''undefined'', ownerRef = None,
                KustCtrl = NewKustCtrl kfiles\<rparr>;
          pg = pg\<lparr>Postgres.KustCtrl := (Postgres.KustCtrl pg)
                 \<lparr>KMutators := KMutators (Postgres.KustCtrl pg) @ [Postgres_mutateKustomization]\<rparr>\<rparr>
      in foldl (\<lambda>pg opt. Postgres_Option opt pg) pg opts)"

text \<open>\<^verbatim>\<open>Apply\<close> is the method of the embedded \<^verbatim>\<open>KustCtrl\<close>, promoted.\<close>

definition Postgres_Apply ::
  "('fs, world) externals \<Rightarrow> Postgres \<Rightarrow> world \<Rightarrow> string \<Rightarrow> Ads \<Rightarrow> error option \<times> Postgres \<times> world"
where
  "Postgres_Apply ext p w ovl ad =
     (case Apply ext (PgFields.truncate p) (Postgres.KustCtrl p) w ovl ad of
        (err, k, w') \<Rightarrow> (err, p\<lparr>Postgres.KustCtrl := k\<rparr>, w'))"

text \<open>\<^verbatim>\<open>Advertise\<close> returns both its \<^verbatim>\<open>Ads\<close> and its error.\<close>

definition Postgres_Advertise :: "Postgres \<Rightarrow> world \<Rightarrow> (Ads \<times> error option) \<times> world" where
  "Postgres_Advertise p w =
     (let ad = Ads_zero in
      if Overlay (Postgres.KustCtrl p) = ScaleDownOverlay
         \<or> Overlay (Postgres.KustCtrl p) = NotAppliedOverlay
      then ((ad, None), w)
      else
        (case ensurePsqlSecretData p w of
           (Inl err, w') \<Rightarrow> ((ad, Some (Wrapf ''error reading pgsql secret data: '' err)), w')
         | (Inr (pass, rootpass), w') \<Rightarrow>
             (let ad = Put ad ''dbhost'' (namePrefix p @ ''-database.'' @ namespace p @ ''.svc'');
                  ad = Put ad ''dbport'' ''5432'';
                  ad = Put ad ''dbuser'' ''user'';
                  ad = Put ad ''dbpass'' pass;
                  ad = Put ad ''dbname'' ''database'';
                  ad = Put ad ''dbrootuser'' ''postgres'';
                  ad = Put ad ''dbrootpass'' rootpass
              in ((ad, None), w'))))"

text \<open>The first loop of \<^verbatim>\<open>hasDanglingPods\<close>, over the owner references of one replica set.\<close>

fun rs_orefs_loop ::
  "OwnerReference list \<Rightarrow> Deployment \<Rightarrow> ReplicaSet \<Rightarrow> (string \<rightharpoonup> bool) \<Rightarrow> (string \<rightharpoonup> bool)"
where
  "rs_orefs_loop [] dep rs rss = rss"
| "rs_orefs_loop (oref # orefs) dep rs rss =
     (if RefUID oref \<noteq> UID dep \<or> RefKind oref \<noteq> ''Deployment''
      then rs_orefs_loop orefs dep rs rss
      else rs_orefs_loop orefs dep rs (rss(UID rs \<mapsto> True)))"

fun rsets_loop ::
  "ReplicaSet list \<Rightarrow> Deployment \<Rightarrow> (string \<rightharpoonup> bool) \<Rightarrow> (string \<rightharpoonup> bool)"
where
  "rsets_loop [] dep rss = rss"
| "rsets_loop (rs # rsets) dep rss =
     rsets_loop rsets dep (rs_orefs_loop (OwnerReferences rs) dep rs rss)"

text \<open>The second loop, over the owner references of one pod: \<open>True\<close> is \<^verbatim>\<open>return true, nil\<close>.\<close>

fun pod_orefs_loop :: "OwnerReference list \<Rightarrow> (string \<rightharpoonup> bool) \<Rightarrow> bool" where
  "pod_orefs_loop [] rss = False"
| "pod_orefs_loop (oref # orefs) rss =
     (let ok = (rss (RefUID oref) \<noteq> None) in
      if \<not> ok \<or> RefKind oref \<noteq> ''ReplicaSet'' then pod_orefs_loop orefs rss else True)"

fun pods_loop :: "Pod list \<Rightarrow> (string \<rightharpoonup> bool) \<Rightarrow> bool" where
  "pods_loop [] rss = False"
| "pods_loop (pod # pods) rss =
     (if pod_orefs_loop (OwnerReferences pod) rss then True else pods_loop pods rss)"

definition hasDanglingPods :: "Postgres \<Rightarrow> world \<Rightarrow> Deployment \<Rightarrow> error + bool" where
  "hasDanglingPods p w dep =
     (case client_List_ReplicaSets w (namespace p) of
        Inl err \<Rightarrow> Inl (Wrapf ''error listing replicasets: '' err)
      | Inr rsets \<Rightarrow>
          (case client_List_Pods w (namespace p) of
             Inl err \<Rightarrow> Inl (Wrapf ''error listing replicasets: '' err)
           | Inr pods \<Rightarrow> Inr (pods_loop pods (rsets_loop rsets dep Map.empty))))"

definition Postgres_Status :: "json_codec \<Rightarrow> Postgres \<Rightarrow> world \<Rightarrow> error + Status" where
  "Postgres_Status js p w =
     (if Overlay (Postgres.KustCtrl p) = NotAppliedOverlay
      then Inl (Errorf ''no overlay applied to the controller'')
      else
        (case client_Get_Deployment w (namespace p, namePrefix p @ ''-database'') of
           Inl err \<Rightarrow> Inl (Wrapf ''unable to get deployment: '' err)
         | Inr dep \<Rightarrow>
        (case Conditions_loop js (\<lambda>err. Errorf (''error processing condition: '' @ Error err))
                (DepConditions dep) [] of
           Inl err \<Rightarrow> Inl err
         | Inr conds \<Rightarrow>
             if Overlay (Postgres.KustCtrl p) \<noteq> ScaleDownOverlay
             then
               (let replicas = (case Replicas dep of None \<Rightarrow> 0 | Some r \<Rightarrow> r) in
                if replicas \<noteq> AvailableReplicas dep
                then Inr \<lparr>Ready = False, Message = ''deployment not fully available yet'',
                          Conditions = conds\<rparr>
                else Inr \<lparr>Ready = True, Message = ''deployment available'',
                          Conditions = conds\<rparr>)
             else
               (case hasDanglingPods p w dep of
                  Inl err \<Rightarrow> Inl (Wrapf ''error checking for dangling pods: '' err)
                | Inr has \<Rightarrow>
                    if has
                    then Inr \<lparr>Ready = False, Message = ''deployment scaling down'',
                              Conditions = conds\<rparr>
                    else Inr \<lparr>Ready = True, Message = ''deployment scaled down'',
                              Conditions = conds\<rparr>))))"

section \<open>ctrls/redis: the cache component\<close>

record Redis = Fields +
  KustCtrl :: "(Fields, world) KustCtrl"

definition Redis_mutateKustomization :: "(Fields, world) KMutator" where
  "Redis_mutateKustomization r w kust adv = (Inr (kust\<lparr>NamePrefix := namePrefix r @ ''-''\<rparr>), w)"

fun Redis_Option :: "Option \<Rightarrow> Redis \<Rightarrow> Redis" where
  "Redis_Option (WithOwnerReference oref) r =
     r\<lparr>Redis.KustCtrl := (Redis.KustCtrl r)
         \<lparr>OMutators := OMutators (Redis.KustCtrl r) @ [owner_mutator oref]\<rparr>\<rparr>"
| "Redis_Option (WithNamespace ns) r =
     r\<lparr>namespace := ns,
       Redis.KustCtrl := (Redis.KustCtrl r)
         \<lparr>OMutators := OMutators (Redis.KustCtrl r) @ [namespace_mutator ns]\<rparr>\<rparr>"
| "Redis_Option (WithNamePrefix prefix) r = r\<lparr>namePrefix := prefix\<rparr>"

definition Redis_New :: "embed_FS \<Rightarrow> Option list \<Rightarrow> Redis" where
  "Redis_New kfiles opts =
     (let rs = \<lparr>namespace = ''default'', namePrefix = ''undefined'',
                KustCtrl = NewKustCtrl kfiles\<rparr>;
          rs = rs\<lparr>Redis.KustCtrl := (Redis.KustCtrl rs)
                 \<lparr>KMutators := KMutators (Redis.KustCtrl rs) @ [Redis_mutateKustomization]\<rparr>\<rparr>
      in foldl (\<lambda>rs opt. Redis_Option opt rs) rs opts)"

definition Redis_Apply ::
  "('fs, world) externals \<Rightarrow> Redis \<Rightarrow> world \<Rightarrow> string \<Rightarrow> Ads \<Rightarrow> error option \<times> Redis \<times> world"
where
  "Redis_Apply ext r w ovl ad =
     (case Apply ext (Fields.truncate r) (Redis.KustCtrl r) w ovl ad of
        (err, k, w') \<Rightarrow> (err, r\<lparr>Redis.KustCtrl := k\<rparr>, w'))"


definition Redis_Status :: "json_codec \<Rightarrow> Redis \<Rightarrow> world \<Rightarrow> error + Status" where
  "Redis_Status js r w =
     (if Overlay (Redis.KustCtrl r) = NotAppliedOverlay
      then Inl (Errorf ''no overlay applied to the controller'')
      else
        (case client_Get_Deployment w (namespace r, namePrefix r @ ''-redis'') of
           Inl err \<Rightarrow> Inl (Wrapf ''error getting deployment: '' err)
         | Inr dep \<Rightarrow>
             (let replicas =
                    (if Overlay (Redis.KustCtrl r) \<noteq> ScaleDownOverlay \<and> Replicas dep \<noteq> None
                     then the (Replicas dep) else 0)
              in case Conditions_loop js (Wrapf ''error converting condition: '')
                        (DepConditions dep) [] of
                   Inl err \<Rightarrow> Inl err
                 | Inr conds \<Rightarrow>
                     if AvailableReplicas dep \<noteq> replicas
                     then Inr \<lparr>Ready = False, Message = ''deployment not fully available yet'',
                               Conditions = conds\<rparr>
                     else Inr \<lparr>Ready = True, Message = ''deployment ready'',
                               Conditions = conds\<rparr>)))"

section \<open>ctrls/clair: the scanning component\<close>

text \<open>
  \<^verbatim>\<open>Config\<close> and the structures inside it. A field name that several structures share
  carries the name of its structure in front.
\<close>

record IndexerConfig =
  IndexerConnString :: string
  ScanLockRetry :: int
  LayerScanConcurrency :: int
  IndexerMigrations :: bool
  AirGap :: bool

record MatcherConfig =
  MatcherConnString :: string
  MaxConnPool :: int
  MatcherIndexerAddr :: string
  MatcherMigrations :: bool
  DisableUpdaters :: bool

record WebhookConfig =
  Target :: string
  Callback :: string
  Signed :: bool

record NotifierConfig =
  NotifierConnString :: string
  NotifierMigrations :: bool
  NotifierIndexerAddr :: string
  MatcherAddr :: string
  PollInterval :: string
  DeliveryInterval :: string
  Webhook :: WebhookConfig

record AuthPSKConfig =
  Key :: string
  ISS :: "string list"

record AuthConfig =
  PSK :: AuthPSKConfig

record TraceJaegerConfig =
  AgentEndpoint :: string
  CollectorEndpoint :: string
  ServiceName :: string
  BufferMax :: int

record TraceConfig =
  TraceName :: string
  Jaeger :: TraceJaegerConfig

record MetricsConfig =
  MetricsName :: string
  DogStatsdURL :: string

record Config =
  HTTPListenAddr :: string
  IntrospectionAddr :: string
  LogLevel :: string
  Indexer :: IndexerConfig
  Matcher :: MatcherConfig
  Notifier :: NotifierConfig
  Auth :: AuthConfig
  Trace :: TraceConfig
  Metrics :: MetricsConfig

text \<open>
  What the package reads from outside its sources: its embedded files \<open>kfiles\<close> and
  \<open>static\<close>, and the YAML codec for a \<^verbatim>\<open>Config\<close>.
\<close>

record clair_externals =
  kfiles :: embed_FS
  static_ReadFile :: "string \<Rightarrow> error + string"
  yaml_Unmarshal_Config :: "string \<Rightarrow> error + Config"
  yaml_Marshal_Config :: "Config \<Rightarrow> error + string"

definition EmptyConfig :: "clair_externals \<Rightarrow> error + Config" where
  "EmptyConfig cx =
     (case static_ReadFile cx ''static/default-clair-config.yaml'' of
        Inl err \<Rightarrow> Inl (Wrapf ''error reading default clair config: '' err)
      | Inr dt \<Rightarrow>
          (case yaml_Unmarshal_Config cx dt of
             Inl err \<Rightarrow> Inl (Wrapf ''error unmarshaling default config: '' err)
           | Inr config \<Rightarrow> Inr config))"

record Clair = Fields +
  KustCtrl :: "(Fields, world) KustCtrl"

definition buildClairConfig :: "clair_externals \<Rightarrow> Ads \<Rightarrow> error + Config" where
  "buildClairConfig cx ads =
     (let needed = [''dbhost'', ''dbport'', ''dbname'', ''dbrootuser'', ''dbrootpass''] in
      case Contains ads needed of
        Some err \<Rightarrow> Inl (Wrapf ''missing advertised data: '' err)
      | None \<Rightarrow>
          (case EmptyConfig cx of
             Inl err \<Rightarrow> Inl (Wrapf ''unable to process default config: '' err)
           | Inr config \<Rightarrow>
               (let connstr =
                      ''host='' @ Get ads ''dbhost'' @
                      '' port='' @ Get ads ''dbport'' @
                      '' dbname='' @ Get ads ''dbname'' @
                      '' user='' @ Get ads ''dbrootuser'' @
                      '' password='' @ Get ads ''dbrootpass'' @
                      '' sslmode=disable'';
                    config = config\<lparr>Indexer := (Indexer config)\<lparr>IndexerConnString := connstr\<rparr>\<rparr>;
                    config = config\<lparr>Matcher := (Matcher config)\<lparr>MatcherConnString := connstr\<rparr>\<rparr>;
                    config = config\<lparr>Notifier := (Notifier config)\<lparr>NotifierConnString := connstr\<rparr>\<rparr>
                in Inr config)))"

definition Clair_mutateKustomization :: "clair_externals \<Rightarrow> (Fields, world) KMutator" where
  "Clair_mutateKustomization cx c w kust ads =
     (case buildClairConfig cx ads of
        Inl err \<Rightarrow> (Inl (Wrapf ''unable to build clair config: '' err), w)
      | Inr config \<Rightarrow>
          (case yaml_Marshal_Config cx config of
             Inl err \<Rightarrow> (Inl (Wrapf ''error marshaling clair config: '' err), w)
           | Inr cfg \<Rightarrow>
               (Inr (kust\<lparr>NamePrefix := namePrefix c @ ''-'',
                          SecretGenerator := [(''clair-config'', [''config.yaml='' @ cfg])]\<rparr>), w)))"

fun Clair_Option :: "Option \<Rightarrow> Clair \<Rightarrow> Clair" where
  "Clair_Option (WithOwnerReference oref) c =
     c\<lparr>Clair.KustCtrl := (Clair.KustCtrl c)
         \<lparr>OMutators := OMutators (Clair.KustCtrl c) @ [owner_mutator oref]\<rparr>\<rparr>"
| "Clair_Option (WithNamespace ns) c =
     c\<lparr>namespace := ns,
       Clair.KustCtrl := (Clair.KustCtrl c)
         \<lparr>OMutators := OMutators (Clair.KustCtrl c) @ [namespace_mutator ns]\<rparr>\<rparr>"
| "Clair_Option (WithNamePrefix prefix) c = c\<lparr>namePrefix := prefix\<rparr>"

definition Clair_New :: "clair_externals \<Rightarrow> Option list \<Rightarrow> Clair" where
  "Clair_New cx opts =
     (let cl = \<lparr>namespace = ''default'', namePrefix = ''undefined'',
                KustCtrl = NewKustCtrl (kfiles cx)\<rparr>;
          cl = cl\<lparr>Clair.KustCtrl := (Clair.KustCtrl cl)
                 \<lparr>KMutators := KMutators (Clair.KustCtrl cl) @ [Clair_mutateKustomization cx]\<rparr>\<rparr>
      in foldl (\<lambda>cl opt. Clair_Option opt cl) cl opts)"

definition Clair_Apply ::
  "('fs, world) externals \<Rightarrow> Clair \<Rightarrow> world \<Rightarrow> string \<Rightarrow> Ads \<Rightarrow> error option \<times> Clair \<times> world"
where
  "Clair_Apply ext c w ovl ad =
     (case Apply ext (Fields.truncate c) (Clair.KustCtrl c) w ovl ad of
        (err, k, w') \<Rightarrow> (err, c\<lparr>Clair.KustCtrl := k\<rparr>, w'))"

definition Clair_Advertise :: "Clair \<Rightarrow> Ads \<times> error option" where
  "Clair_Advertise c =
     (let ads = Ads_zero in
      if Overlay (Clair.KustCtrl c) = ScaleDownOverlay
      then (ads, None)
      else
        (let addr = namePrefix c @ ''-clair.'' @ namespace c;
             ads = Put ads ''clair-addr'' addr
         in (ads, None)))"

definition Clair_Status :: "json_codec \<Rightarrow> Clair \<Rightarrow> world \<Rightarrow> error + Status" where
  "Clair_Status js c w =
     (if Overlay (Clair.KustCtrl c) = NotAppliedOverlay
      then Inl (Errorf ''no overlay applied to the controller'')
      else
        (case client_Get_Deployment w (namespace c, namePrefix c @ ''-clair'') of
           Inl err \<Rightarrow> Inl (Wrapf ''error getting deployment: '' err)
         | Inr dep \<Rightarrow>
             (let replicas =
                    (if Overlay (Clair.KustCtrl c) \<noteq> ScaleDownOverlay \<and> Replicas dep \<noteq> None
                     then the (Replicas dep) else 0)
              in case Conditions_loop js (Wrapf ''error converting condition: '')
                        (DepConditions dep) [] of
                   Inl err \<Rightarrow> Inl err
                 | Inr conds \<Rightarrow>
                     if AvailableReplicas dep \<noteq> replicas \<or> UpdatedReplicas dep \<noteq> replicas
                     then Inr \<lparr>Ready = False, Message = ''deployment not fully available yet'',
                               Conditions = conds\<rparr>
                     else Inr \<lparr>Ready = True, Message = ''deployment ready'',
                               Conditions = conds\<rparr>)))"

section \<open>Concrete inputs\<close>

definition ex_js :: json_codec where
  "ex_js = \<lparr>json_Marshal = (\<lambda>c. Inr (condType c)),
            json_Unmarshal_Condition = (\<lambda>s. Inr \<lparr>condType = s, condStatus = ''True'',
               LastTransitionTime = [], condReason = [], condMessage = [],
               ObservedGeneration = 0\<rparr>)\<rparr>"

definition ex_dep :: "string \<Rightarrow> 32 word option \<Rightarrow> 32 word \<Rightarrow> 32 word \<Rightarrow> Deployment" where
  "ex_dep name desired available updated =
     \<lparr>Name = name, Namespace = ''ns'', UID = ''uid-dep'', OwnerReferences = [],
      Replicas = desired, AvailableReplicas = available, UpdatedReplicas = updated,
      DepConditions = []\<rparr>"

definition ex_rs :: ReplicaSet where
  "ex_rs = \<lparr>Name = ''pg-database-5d4f'', Namespace = ''ns'', UID = ''uid-rs'',
            OwnerReferences = [\<lparr>RefAPIVersion = ''apps/v1'', RefKind = ''Deployment'',
               RefName = ''pg-database'', RefUID = ''uid-dep''\<rparr>]\<rparr>"

definition ex_pod :: Pod where
  "ex_pod = \<lparr>Name = ''pg-database-5d4f-x2x'', Namespace = ''ns'', UID = ''uid-pod'',
             OwnerReferences = [\<lparr>RefAPIVersion = ''apps/v1'', RefKind = ''ReplicaSet'',
               RefName = ''pg-database-5d4f'', RefUID = ''uid-rs''\<rparr>]\<rparr>"

definition ex_world :: "(string \<times> string \<rightharpoonup> Deployment) \<Rightarrow> Pod list \<Rightarrow> world" where
  "ex_world deps pods =
     \<lparr>Secrets = Map.empty, Deployments = deps, ReplicaSets = [ex_rs], Pods = pods,
      Faults = (\<lambda>v k. None), Rand = (\<lambda>n. ''uuid-'' @ replicate n CHR ''x''), RandPos = 0\<rparr>"

definition ex_w0 :: world where
  "ex_w0 = ex_world Map.empty []"

definition ex_pg :: "string \<Rightarrow> Postgres" where
  "ex_pg ovl =
     (let p = Postgres_New [] [WithNamespace ''ns'', WithNamePrefix ''pg''] in
      p\<lparr>Postgres.KustCtrl := (Postgres.KustCtrl p)\<lparr>overlay := ovl\<rparr>\<rparr>)"

definition ex_redis :: "string \<Rightarrow> Redis" where
  "ex_redis ovl =
     (let r = Redis_New [] [WithNamespace ''ns'', WithNamePrefix ''cache''] in
      r\<lparr>Redis.KustCtrl := (Redis.KustCtrl r)\<lparr>overlay := ovl\<rparr>\<rparr>)"

definition ex_config :: Config where
  "ex_config =
     \<lparr>HTTPListenAddr = '':8080'', IntrospectionAddr = '':8089'', LogLevel = ''info'',
      Indexer = \<lparr>IndexerConnString = [], ScanLockRetry = 10, LayerScanConcurrency = 5,
                 IndexerMigrations = True, AirGap = False\<rparr>,
      Matcher = \<lparr>MatcherConnString = [], MaxConnPool = 100, MatcherIndexerAddr = [],
                 MatcherMigrations = True, DisableUpdaters = False\<rparr>,
      Notifier = \<lparr>NotifierConnString = [], NotifierMigrations = True,
                  NotifierIndexerAddr = [], MatcherAddr = [], PollInterval = ''5m'',
                  DeliveryInterval = ''1m'',
                  Webhook = \<lparr>Target = [], Callback = [], Signed = False\<rparr>\<rparr>,
      Auth = \<lparr>PSK = \<lparr>Key = [], ISS = []\<rparr>\<rparr>,
      Trace = \<lparr>TraceName = [], Jaeger = \<lparr>AgentEndpoint = [], CollectorEndpoint = [],
                 ServiceName = [], BufferMax = 0\<rparr>\<rparr>,
      Metrics = \<lparr>MetricsName = ''prometheus'', DogStatsdURL = []\<rparr>\<rparr>"

definition ex_kfiles :: embed_FS where
  "ex_kfiles = [(''/kustomize/base/kustomization.yaml'', ''resources: []'')]"

definition ex_cx :: clair_externals where
  "ex_cx = \<lparr>kfiles = ex_kfiles, static_ReadFile = (\<lambda>path. Inr ''default''),
            yaml_Unmarshal_Config = (\<lambda>dt. Inr ex_config),
            yaml_Marshal_Config = (\<lambda>c. Inr (IndexerConnString (Indexer c)))\<rparr>"

definition ex_clair :: "string \<Rightarrow> Clair" where
  "ex_clair ovl =
     (let c = Clair_New ex_cx [WithNamespace ''ns'', WithNamePrefix ''scan''] in
      c\<lparr>Clair.KustCtrl := (Clair.KustCtrl c)\<lparr>overlay := ovl\<rparr>\<rparr>)"

definition ex_deps :: "32 word \<Rightarrow> string \<times> string \<rightharpoonup> Deployment" where
  "ex_deps available =
     [(''ns'', ''pg-database'') \<mapsto> ex_dep ''pg-database'' (Some 3) available 3,
      (''ns'', ''cache-redis'') \<mapsto> ex_dep ''cache-redis'' None available 0,
      (''ns'', ''scan-clair'') \<mapsto> ex_dep ''scan-clair'' (Some 3) 3 available]"

definition ex_deps_down :: "string \<times> string \<rightharpoonup> Deployment" where
  "ex_deps_down =
     [(''ns'', ''pg-database'') \<mapsto> ex_dep ''pg-database'' (Some 0) 0 0,
      (''ns'', ''cache-redis'') \<mapsto> ex_dep ''cache-redis'' (Some 1) 0 0,
      (''ns'', ''scan-clair'') \<mapsto> ex_dep ''scan-clair'' (Some 1) 0 1]"

definition ex_w1 :: world where
  "ex_w1 = (ex_world Map.empty [])
     \<lparr>Secrets := [(''ns'', ''pg-pgsql-access-data'') \<mapsto>
        \<lparr>Name = ''pg-pgsql-access-data'', Namespace = ''ns'', UID = [], OwnerReferences = [],
         Data = [''pass'' \<mapsto> ''uuid-'', ''rootpass'' \<mapsto> ''uuid-x''],
         StringData = Map.empty\<rparr>],
      RandPos := 2\<rparr>"

datatype event = KCall string | OCall string | Submit Object

definition traced_K ::
  "string \<Rightarrow> (Kustomization \<Rightarrow> Ads \<Rightarrow> error + Kustomization) \<Rightarrow> ('s, event list) KMutator"
where
  "traced_K l f self w kust ads = (f kust ads, w @ [KCall l])"

definition traced_O :: "string \<Rightarrow> (Object \<Rightarrow> error + Object) \<Rightarrow> event list OMutator" where
  "traced_O l g w obj = (g obj, w @ [OCall l])"

definition traced_Patch :: "event list \<Rightarrow> Object \<Rightarrow> string \<Rightarrow> error option \<times> event list" where
  "traced_Patch w obj fo = (None, w @ [Submit obj])"

definition ex_ext ::
  "Resource list \<Rightarrow> ('w \<Rightarrow> Object \<Rightarrow> string \<Rightarrow> error option \<times> 'w)
     \<Rightarrow> (string \<rightharpoonup> string, 'w) externals"
where
  "ex_ext res patch =
     \<lparr>fsloader_Load = (\<lambda>emb. Inr (map_of emb)),
      fs_ReadFile = (\<lambda>fs path. case fs path of
                        None \<Rightarrow> Inl (Errorf ''file does not exist'')
                      | Some dt \<Rightarrow> Inr dt),
      fs_WriteFile = (\<lambda>fs path dt. Inr (fs(path \<mapsto> dt))),
      yaml_Unmarshal = (\<lambda>dt. Inr \<lparr>NamePrefix = [], SecretGenerator = [], Others = dt\<rparr>),
      yaml_Marshal = (\<lambda>kust. Inr (NamePrefix kust @ Others kust)),
      path_Join = (\<lambda>a b. a @ ''/'' @ b),
      krusty_Run = (\<lambda>fs dir. Inr res),
      fmt_Gvk = (\<lambda>g. Group g @ ''_'' @ Version g @ ''_'' @ Kind g),
      MarshalJSON = (\<lambda>rsc. Inr (Content rsc)),
      json_Unmarshal = (\<lambda>dt obj. Inr (obj\<lparr>Name := dt\<rparr>)),
      client_Patch = patch\<rparr>"

definition ex_resources :: "Resource list" where
  "ex_resources =
     [\<lparr>GetGvk = \<lparr>Group = [], Version = ''v1'', Kind = ''Secret''\<rparr>, Content = ''a''\<rparr>,
      \<lparr>GetGvk = \<lparr>Group = ''apps'', Version = ''v1'', Kind = ''Deployment''\<rparr>, Content = ''b''\<rparr>,
      \<lparr>GetGvk = \<lparr>Group = [], Version = ''v1'', Kind = ''Service''\<rparr>, Content = ''c''\<rparr>]"

definition ex_K1 :: "('s, event list) KMutator" where
  "ex_K1 = traced_K ''first'' (\<lambda>kust ads. Inr (kust\<lparr>NamePrefix := ''x-''\<rparr>))"

definition ex_K2 :: "bool \<Rightarrow> ('s, event list) KMutator" where
  "ex_K2 kfail =
     traced_K ''second'' (\<lambda>kust ads. if kfail then Inl (Errorf ''boom'') else Inr kust)"

definition ex_K3 :: "('s, event list) KMutator" where
  "ex_K3 = traced_K ''third'' (\<lambda>kust ads. Inr kust)"

definition ex_O1 :: "event list OMutator" where
  "ex_O1 = traced_O ''first'' (\<lambda>obj. Inr (obj\<lparr>Namespace := ''ns''\<rparr>))"

definition ex_O2 :: "string \<Rightarrow> event list OMutator" where
  "ex_O2 oname =
     traced_O ''second'' (\<lambda>obj. if Name obj = oname then Inl (Errorf ''bad object'')
                                 else Inr obj)"

definition ex_O3 :: "event list OMutator" where
  "ex_O3 = traced_O ''third'' (\<lambda>obj. Inr obj)"

definition ex_kust_ctrl :: "bool \<Rightarrow> string \<Rightarrow> (unit, event list) KustCtrl" where
  "ex_kust_ctrl kfail oname =
     (NewKustCtrl ex_kfiles)
       \<lparr>KMutators := [ex_K1, ex_K2 kfail, ex_K3], OMutators := [ex_O1, ex_O2 oname, ex_O3]\<rparr>"

definition ex_obj :: "string \<Rightarrow> GoType \<Rightarrow> Object" where
  "ex_obj name t =
     \<lparr>Name = name, Namespace = [], UID = [], OwnerReferences = [], GoType = t, Raw = []\<rparr>"

definition ex_job :: Resource where
  "ex_job = \<lparr>GetGvk = \<lparr>Group = ''batch'', Version = ''v1'', Kind = ''Job''\<rparr>, Content = ''j''\<rparr>"

definition ex_ads :: Ads where
  "ex_ads = Put (Put Ads_zero ''dbhost'' ''pg-database.ns.svc'') ''dbname'' ''database''"

definition ex_patch :: "world \<Rightarrow> Object \<Rightarrow> string \<Rightarrow> error option \<times> world" where
  "ex_patch w obj fo = (None, w\<lparr>RandPos := Suc (RandPos w)\<rparr>)"

definition ex_sct :: Secret where
  "ex_sct = \<lparr>Name = ''pg-pgsql-access-data'', Namespace = ''ns'', UID = [],
             OwnerReferences = [],
             Data = [''pass'' \<mapsto> ''uuid-'', ''rootpass'' \<mapsto> ''uuid-x''],
             StringData = Map.empty\<rparr>"

section \<open>Readiness of the database component when scaled down\<close>

lemma rs_orefs_loop_dom:
  "dom (rs_orefs_loop orefs dep rs rss) =
     dom rss \<union> (if \<exists>oref\<in>set orefs. RefUID oref = UID dep \<and> RefKind oref = ''Deployment''
                then {UID rs} else {})"
  by (induction orefs arbitrary: rss) auto

lemma rsets_loop_dom:
  "dom (rsets_loop rsets dep rss) =
     dom rss \<union> {UID rs | rs. rs \<in> set rsets \<and>
        (\<exists>oref\<in>set (OwnerReferences rs). RefUID oref = UID dep \<and> RefKind oref = ''Deployment'')}"
  by (induction rsets arbitrary: rss) (auto simp: rs_orefs_loop_dom)

lemma pod_orefs_loop_iff:
  "pod_orefs_loop orefs rss \<longleftrightarrow>
     (\<exists>oref\<in>set orefs. RefKind oref = ''ReplicaSet'' \<and> RefUID oref \<in> dom rss)"
  by (induction orefs) (auto simp: Let_def)

lemma pods_loop_iff:
  "pods_loop pods rss \<longleftrightarrow>
     (\<exists>pod\<in>set pods. \<exists>oref\<in>set (OwnerReferences pod).
        RefKind oref = ''ReplicaSet'' \<and> RefUID oref \<in> dom rss)"
proof (induction pods)
  case Nil
  show ?case by simp
next
  case (Cons pod pods)
  have "pods_loop (pod # pods) rss \<longleftrightarrow>
          pod_orefs_loop (OwnerReferences pod) rss \<or> pods_loop pods rss"
    by simp
  then show ?case
    unfolding Cons.IH pod_orefs_loop_iff by auto
qed

lemma hasDanglingPods_iff:
  assumes "Faults w VList ''ReplicaSet'' = None" and "Faults w VList ''Pod'' = None"
    and "namespace p \<noteq> []"
  shows "hasDanglingPods p w dep = Inr
     (\<exists>pod\<in>set (Pods w). Namespace pod = namespace p \<and>
        (\<exists>oref\<in>set (OwnerReferences pod). RefKind oref = ''ReplicaSet'' \<and>
           RefUID oref \<in> {UID rs | rs. rs \<in> set (ReplicaSets w) \<and> Namespace rs = namespace p \<and>
              (\<exists>o'\<in>set (OwnerReferences rs). RefUID o' = UID dep \<and> RefKind o' = ''Deployment'')}))"
  using assms
  by (auto simp: hasDanglingPods_def client_List_ReplicaSets_def client_List_Pods_def
      pods_loop_iff rsets_loop_dom)

text \<open>
  C1. For the database component under the overlay "scale-down", in a namespace that has a
  name (the empty namespace makes the client list every namespace), when the deployment is
  read and its conditions are converted and both lists are answered, \<open>Status\<close> reports
  ready=false with the message "deployment scaling down" exactly when some pod of the
  component's namespace has an owner reference of kind "ReplicaSet" whose UID is that of a
  replica set of the namespace with an owner reference to the deployment's UID of kind
  "Deployment"; when there is no such pod it reports ready=true with the message
  "deployment scaled down".
\<close>

theorem C1_scale_down_status:
  assumes "Overlay (Postgres.KustCtrl p) = ScaleDownOverlay"
    and "client_Get_Deployment w (namespace p, namePrefix p @ ''-database'') = Inr dep"
    and "Conditions_loop js (\<lambda>err. Errorf (''error processing condition: '' @ Error err))
           (DepConditions dep) [] = Inr conds"
    and "Faults w VList ''ReplicaSet'' = None" and "Faults w VList ''Pod'' = None"
    and "namespace p \<noteq> []"
  shows "Postgres_Status js p w = Inr
     (if (\<exists>pod\<in>set (Pods w). Namespace pod = namespace p \<and>
        (\<exists>oref\<in>set (OwnerReferences pod). RefKind oref = ''ReplicaSet'' \<and>
           RefUID oref \<in> {UID rs | rs. rs \<in> set (ReplicaSets w) \<and> Namespace rs = namespace p \<and>
              (\<exists>o'\<in>set (OwnerReferences rs). RefUID o' = UID dep \<and> RefKind o' = ''Deployment'')}))
      then \<lparr>Ready = False, Message = ''deployment scaling down'', Conditions = conds\<rparr>
      else \<lparr>Ready = True, Message = ''deployment scaled down'', Conditions = conds\<rparr>)"
  using assms(1-3) hasDanglingPods_iff[OF assms(4-6), of dep]
  by (simp add: Postgres_Status_def ScaleDownOverlay_def NotAppliedOverlay_def)

lemma ex_pg_simps:
  "namespace (ex_pg ovl) = ''ns''" "namePrefix (ex_pg ovl) = ''pg''"
  "Overlay (Postgres.KustCtrl (ex_pg ovl)) = ovl" "ownerRef (ex_pg ovl) = None"
  by (simp_all add: ex_pg_def Postgres_New_def Overlay_def Let_def)

theorem C1_scale_down_status_witness:
  "Postgres_Status ex_js (ex_pg ''scale-down'')
      (ex_world [(''ns'', ''pg-database'') \<mapsto> ex_dep ''pg-database'' (Some 0) 0 0] [ex_pod])
    = Inr \<lparr>Ready = False, Message = ''deployment scaling down'', Conditions = []\<rparr>
   \<and> Postgres_Status ex_js (ex_pg ''scale-down'')
      (ex_world [(''ns'', ''pg-database'') \<mapsto> ex_dep ''pg-database'' (Some 0) 0 0] [])
    = Inr \<lparr>Ready = True, Message = ''deployment scaled down'', Conditions = []\<rparr>"
  using C1_scale_down_status [of "ex_pg ''scale-down''"
      "ex_world [(''ns'', ''pg-database'') \<mapsto> ex_dep ''pg-database'' (Some 0) 0 0] [ex_pod]"
      "ex_dep ''pg-database'' (Some 0) 0 0" ex_js "[]"]
    C1_scale_down_status [of "ex_pg ''scale-down''"
      "ex_world [(''ns'', ''pg-database'') \<mapsto> ex_dep ''pg-database'' (Some 0) 0 0] []"
      "ex_dep ''pg-database'' (Some 0) 0 0" ex_js "[]"]
  by (simp add: ex_pg_simps ScaleDownOverlay_def client_Get_Deployment_def ex_world_def
      ex_dep_def ex_rs_def ex_pod_def)

section \<open>Readiness under the other overlays\<close>

lemma Postgres_Status_steady:
  assumes "Overlay (Postgres.KustCtrl p) \<noteq> NotAppliedOverlay"
    and "Overlay (Postgres.KustCtrl p) \<noteq> ScaleDownOverlay"
    and "client_Get_Deployment w (namespace p, namePrefix p @ ''-database'') = Inr dep"
    and "Conditions_loop js (\<lambda>err. Errorf (''error processing condition: '' @ Error err))
           (DepConditions dep) [] = Inr conds"
  shows "Postgres_Status js p w = Inr
     (if AvailableReplicas dep = (case Replicas dep of None \<Rightarrow> 0 | Some n \<Rightarrow> n)
      then \<lparr>Ready = True, Message = ''deployment available'', Conditions = conds\<rparr>
      else \<lparr>Ready = False, Message = ''deployment not fully available yet'', Conditions = conds\<rparr>)"
  using assms by (auto simp: Postgres_Status_def Let_def)

lemma Redis_Status_steady:
  assumes "Overlay (Redis.KustCtrl r) \<noteq> NotAppliedOverlay"
    and "Overlay (Redis.KustCtrl r) \<noteq> ScaleDownOverlay"
    and "client_Get_Deployment w (namespace r, namePrefix r @ ''-redis'') = Inr dep"
    and "Conditions_loop js (Wrapf ''error converting condition: '') (DepConditions dep) []
           = Inr conds"
  shows "Redis_Status js r w = Inr
     (if AvailableReplicas dep = (case Replicas dep of None \<Rightarrow> 0 | Some n \<Rightarrow> n)
      then \<lparr>Ready = True, Message = ''deployment ready'', Conditions = conds\<rparr>
      else \<lparr>Ready = False, Message = ''deployment not fully available yet'', Conditions = conds\<rparr>)"
  using assms by (auto simp: Redis_Status_def Let_def)

lemma Clair_Status_steady:
  assumes "Overlay (Clair.KustCtrl c) \<noteq> NotAppliedOverlay"
    and "Overlay (Clair.KustCtrl c) \<noteq> ScaleDownOverlay"
    and "client_Get_Deployment w (namespace c, namePrefix c @ ''-clair'') = Inr dep"
    and "Conditions_loop js (Wrapf ''error converting condition: '') (DepConditions dep) []
           = Inr conds"
  shows "Clair_Status js c w = Inr
     (if AvailableReplicas dep = (case Replicas dep of None \<Rightarrow> 0 | Some n \<Rightarrow> n)
         \<and> UpdatedReplicas dep = (case Replicas dep of None \<Rightarrow> 0 | Some n \<Rightarrow> n)
      then \<lparr>Ready = True, Message = ''deployment ready'', Conditions = conds\<rparr>
      else \<lparr>Ready = False, Message = ''deployment not fully available yet'', Conditions = conds\<rparr>)"
  using assms by (auto simp: Clair_Status_def Let_def)

lemma Redis_Status_down:
  assumes "Overlay (Redis.KustCtrl r) = ScaleDownOverlay"
    and "client_Get_Deployment w (namespace r, namePrefix r @ ''-redis'') = Inr dep"
    and "Conditions_loop js (Wrapf ''error converting condition: '') (DepConditions dep) []
           = Inr conds"
  shows "Redis_Status js r w = Inr
     (if AvailableReplicas dep = 0
      then \<lparr>Ready = True, Message = ''deployment ready'', Conditions = conds\<rparr>
      else \<lparr>Ready = False, Message = ''deployment not fully available yet'', Conditions = conds\<rparr>)"
  using assms by (auto simp: Redis_Status_def Let_def ScaleDownOverlay_def NotAppliedOverlay_def)

lemma Clair_Status_down:
  assumes "Overlay (Clair.KustCtrl c) = ScaleDownOverlay"
    and "client_Get_Deployment w (namespace c, namePrefix c @ ''-clair'') = Inr dep"
    and "Conditions_loop js (Wrapf ''error converting condition: '') (DepConditions dep) []
           = Inr conds"
  shows "Clair_Status js c w = Inr
     (if AvailableReplicas dep = 0 \<and> UpdatedReplicas dep = 0
      then \<lparr>Ready = True, Message = ''deployment ready'', Conditions = conds\<rparr>
      else \<lparr>Ready = False, Message = ''deployment not fully available yet'', Conditions = conds\<rparr>)"
  using assms by (auto simp: Clair_Status_def Let_def ScaleDownOverlay_def NotAppliedOverlay_def)

lemma client_Get_Deployment_lists:
  "client_Get_Deployment (w\<lparr>ReplicaSets := rsets, Pods := pods\<rparr>) nsn = client_Get_Deployment w nsn"
  by (simp add: client_Get_Deployment_def split: option.splits)

lemma Redis_Status_no_lists:
  "Redis_Status js r (w\<lparr>ReplicaSets := rsets, Pods := pods\<rparr>) = Redis_Status js r w"
  by (simp add: Redis_Status_def client_Get_Deployment_lists)

lemma Clair_Status_no_lists:
  "Clair_Status js c (w\<lparr>ReplicaSets := rsets, Pods := pods\<rparr>) = Clair_Status js c w"
  by (simp add: Clair_Status_def client_Get_Deployment_lists)

section \<open>Readiness: the claims for the three components\<close>

lemma ex_redis_simps:
  "namespace (ex_redis ovl) = ''ns''" "namePrefix (ex_redis ovl) = ''cache''"
  "Overlay (Redis.KustCtrl (ex_redis ovl)) = ovl"
  by (simp_all add: ex_redis_def Redis_New_def Overlay_def Let_def)

lemma ex_clair_simps:
  "namespace (ex_clair ovl) = ''ns''" "namePrefix (ex_clair ovl) = ''scan''"
  "Overlay (Clair.KustCtrl (ex_clair ovl)) = ovl"
  by (simp_all add: ex_clair_def Clair_New_def Overlay_def Let_def)

text \<open>
  C2. Under an overlay that is neither "" nor "scale-down", when the deployment is read and
  its conditions are converted, \<open>Status\<close> of each component reports ready=true exactly when
  the available-replica count (for the scanning component the updated-replica count too)
  equals the desired count, which is 0 when \<^verbatim>\<open>Spec.Replicas\<close> is unset; otherwise it
  reports ready=false with the message "deployment not fully available yet".
\<close>

theorem C2_steady_state_status:
  assumes "ovl \<noteq> NotAppliedOverlay" and "ovl \<noteq> ScaleDownOverlay"
  shows
    "(Overlay (Postgres.KustCtrl p) = ovl
       \<and> client_Get_Deployment w (namespace p, namePrefix p @ ''-database'') = Inr dp
       \<and> Conditions_loop js (\<lambda>err. Errorf (''error processing condition: '' @ Error err))
            (DepConditions dp) [] = Inr cp
      \<longrightarrow> Postgres_Status js p w = Inr
           (if AvailableReplicas dp = (case Replicas dp of None \<Rightarrow> 0 | Some n \<Rightarrow> n)
            then \<lparr>Ready = True, Message = ''deployment available'', Conditions = cp\<rparr>
            else \<lparr>Ready = False, Message = ''deployment not fully available yet'',
                  Conditions = cp\<rparr>))
   \<and> (Overlay (Redis.KustCtrl r) = ovl
       \<and> client_Get_Deployment w (namespace r, namePrefix r @ ''-redis'') = Inr dr
       \<and> Conditions_loop js (Wrapf ''error converting condition: '') (DepConditions dr) []
            = Inr cr
      \<longrightarrow> Redis_Status js r w = Inr
           (if AvailableReplicas dr = (case Replicas dr of None \<Rightarrow> 0 | Some n \<Rightarrow> n)
            then \<lparr>Ready = True, Message = ''deployment ready'', Conditions = cr\<rparr>
            else \<lparr>Ready = False, Message = ''deployment not fully available yet'',
                  Conditions = cr\<rparr>))
   \<and> (Overlay (Clair.KustCtrl c) = ovl
       \<and> client_Get_Deployment w (namespace c, namePrefix c @ ''-clair'') = Inr dc
       \<and> Conditions_loop js (Wrapf ''error converting condition: '') (DepConditions dc) []
            = Inr cc
      \<longrightarrow> Clair_Status js c w = Inr
           (if AvailableReplicas dc = (case Replicas dc of None \<Rightarrow> 0 | Some n \<Rightarrow> n)
               \<and> UpdatedReplicas dc = (case Replicas dc of None \<Rightarrow> 0 | Some n \<Rightarrow> n)
            then \<lparr>Ready = True, Message = ''deployment ready'', Conditions = cc\<rparr>
            else \<lparr>Ready = False, Message = ''deployment not fully available yet'',
                  Conditions = cc\<rparr>))"
  using assms Postgres_Status_steady [of p w dp js cp] Redis_Status_steady [of r w dr js cr]
    Clair_Status_steady [of c w dc js cc]
  by blast

lemma ex_get:
  "client_Get_Deployment (ex_world (ex_deps a) pods) (''ns'', ''pg-database'')
     = Inr (ex_dep ''pg-database'' (Some 3) a 3)"
  "client_Get_Deployment (ex_world (ex_deps a) pods) (''ns'', ''cache-redis'')
     = Inr (ex_dep ''cache-redis'' None a 0)"
  "client_Get_Deployment (ex_world (ex_deps a) pods) (''ns'', ''scan-clair'')
     = Inr (ex_dep ''scan-clair'' (Some 3) 3 a)"
  by (simp_all add: client_Get_Deployment_def ex_world_def ex_deps_def)

theorem C2_steady_state_status_witness:
  "Postgres_Status ex_js (ex_pg ''base'') (ex_world (ex_deps 2) [])
     = Inr \<lparr>Ready = False, Message = ''deployment not fully available yet'', Conditions = []\<rparr>
   \<and> Postgres_Status ex_js (ex_pg ''base'') (ex_world (ex_deps 3) [])
     = Inr \<lparr>Ready = True, Message = ''deployment available'', Conditions = []\<rparr>
   \<and> Redis_Status ex_js (ex_redis ''base'') (ex_world (ex_deps 0) [])
     = Inr \<lparr>Ready = True, Message = ''deployment ready'', Conditions = []\<rparr>
   \<and> Clair_Status ex_js (ex_clair ''base'') (ex_world (ex_deps 2) [])
     = Inr \<lparr>Ready = False, Message = ''deployment not fully available yet'', Conditions = []\<rparr>"
  using
    C2_steady_state_status [of "''base''" "ex_pg ''base''" "ex_world (ex_deps 2) []"
      "ex_dep ''pg-database'' (Some 3) 2 3" ex_js "[]"
      "ex_redis ''base''" "ex_dep ''cache-redis'' None 2 0" "[]"
      "ex_clair ''base''" "ex_dep ''scan-clair'' (Some 3) 3 2" "[]"]
    C2_steady_state_status [of "''base''" "ex_pg ''base''" "ex_world (ex_deps 3) []"
      "ex_dep ''pg-database'' (Some 3) 3 3" ex_js "[]"
      "ex_redis ''base''" "ex_dep ''cache-redis'' None 3 0" "[]"
      "ex_clair ''base''" "ex_dep ''scan-clair'' (Some 3) 3 3" "[]"]
    C2_steady_state_status [of "''base''" "ex_pg ''base''" "ex_world (ex_deps 0) []"
      "ex_dep ''pg-database'' (Some 3) 0 3" ex_js "[]"
      "ex_redis ''base''" "ex_dep ''cache-redis'' None 0 0" "[]"
      "ex_clair ''base''" "ex_dep ''scan-clair'' (Some 3) 3 0" "[]"]
  by (simp add: ex_pg_simps ex_redis_simps ex_clair_simps ex_get NotAppliedOverlay_def
      ScaleDownOverlay_def ex_dep_def)

text \<open>
  C10. Under "scale-down" the cache and the scanning component take 0 for the desired count,
  whatever \<^verbatim>\<open>Spec.Replicas\<close> says, and report ready=true exactly when \<open>AvailableReplicas\<close> is 0
  (and \<open>UpdatedReplicas\<close> too for the scanning component), with the messages of the other
  overlays. Their \<open>Status\<close> does not depend on the replica sets and pods of the store.
\<close>

theorem C10_cache_scanner_scale_down:
  "(Overlay (Redis.KustCtrl r) = ScaleDownOverlay
       \<and> client_Get_Deployment w (namespace r, namePrefix r @ ''-redis'') = Inr dr
       \<and> Conditions_loop js (Wrapf ''error converting condition: '') (DepConditions dr) []
            = Inr cr
      \<longrightarrow> Redis_Status js r w = Inr
           (if AvailableReplicas dr = 0
            then \<lparr>Ready = True, Message = ''deployment ready'', Conditions = cr\<rparr>
            else \<lparr>Ready = False, Message = ''deployment not fully available yet'',
                  Conditions = cr\<rparr>))
   \<and> (Overlay (Clair.KustCtrl c) = ScaleDownOverlay
       \<and> client_Get_Deployment w (namespace c, namePrefix c @ ''-clair'') = Inr dc
       \<and> Conditions_loop js (Wrapf ''error converting condition: '') (DepConditions dc) []
            = Inr cc
      \<longrightarrow> Clair_Status js c w = Inr
           (if AvailableReplicas dc = 0 \<and> UpdatedReplicas dc = 0
            then \<lparr>Ready = True, Message = ''deployment ready'', Conditions = cc\<rparr>
            else \<lparr>Ready = False, Message = ''deployment not fully available yet'',
                  Conditions = cc\<rparr>))
   \<and> Redis_Status js r (w\<lparr>ReplicaSets := rsets, Pods := pods\<rparr>) = Redis_Status js r w
   \<and> Clair_Status js c (w\<lparr>ReplicaSets := rsets, Pods := pods\<rparr>) = Clair_Status js c w"
  using Redis_Status_down [of r w dr js cr] Clair_Status_down [of c w dc js cc]
    Redis_Status_no_lists Clair_Status_no_lists
  by blast

theorem C10_cache_scanner_scale_down_witness:
  "Redis_Status ex_js (ex_redis ''scale-down'') (ex_world ex_deps_down [ex_pod])
     = Inr \<lparr>Ready = True, Message = ''deployment ready'', Conditions = []\<rparr>
   \<and> Clair_Status ex_js (ex_clair ''scale-down'') (ex_world ex_deps_down [ex_pod])
     = Inr \<lparr>Ready = False, Message = ''deployment not fully available yet'', Conditions = []\<rparr>"
  using C10_cache_scanner_scale_down [of "ex_redis ''scale-down''"
      "ex_world ex_deps_down [ex_pod]" "ex_dep ''cache-redis'' (Some 1) 0 0" ex_js "[]"
      "ex_clair ''scale-down''" "ex_dep ''scan-clair'' (Some 1) 0 1" "[]"]
  by (simp add: ex_redis_simps ex_clair_simps ScaleDownOverlay_def client_Get_Deployment_def
      ex_world_def ex_deps_down_def ex_dep_def)

section \<open>The credential secret of the database component\<close>

lemma ensure_found:
  assumes "client_Get_Secret w (namespace p, namePrefix p @ ''-pgsql-access-data'') = Inr sct"
  shows "ensurePsqlSecretData p w =
           (Inr (map_index (Data sct) ''pass'', map_index (Data sct) ''rootpass''), w)"
  using assms by (simp add: ensurePsqlSecretData_def)

lemma ensure_first:
  assumes "ensurePsqlSecretData p w = (Inr (pass, rootpass), w')"
  shows "(case client_Get_Secret w (namespace p, namePrefix p @ ''-pgsql-access-data'') of
            Inr sct \<Rightarrow> w' = w \<and> pass = map_index (Data sct) ''pass''
                        \<and> rootpass = map_index (Data sct) ''rootpass''
          | Inl err \<Rightarrow> IsNotFound err
                \<and> Secrets w (namespace p, namePrefix p @ ''-pgsql-access-data'') = None
                \<and> pass = Rand w (RandPos w) \<and> rootpass = Rand w (Suc (RandPos w))
                \<and> RandPos w' = Suc (Suc (RandPos w)) \<and> Faults w' = Faults w
                \<and> (\<exists>sct. Secrets w' (namespace p, namePrefix p @ ''-pgsql-access-data'') = Some sct
                      \<and> Data sct ''pass'' = Some pass \<and> Data sct ''rootpass'' = Some rootpass))"
  using assms
  by (auto simp: ensurePsqlSecretData_def Let_def uuid_New_def client_Create_Secret_def
      map_index_def split: sum.splits if_splits option.splits prod.splits)

lemma ensure_later:
  assumes "ensurePsqlSecretData p w = (Inr (pass, rootpass), w')"
    and "namespace q = namespace p" and "namePrefix q = namePrefix p"
    and "Secrets w'' (namespace p, namePrefix p @ ''-pgsql-access-data'')
           = Secrets w' (namespace p, namePrefix p @ ''-pgsql-access-data'')"
    and "Faults w'' VGet ''Secret'' = None"
  shows "ensurePsqlSecretData q w'' = (Inr (pass, rootpass), w'')"
proof (cases "client_Get_Secret w (namespace p, namePrefix p @ ''-pgsql-access-data'')")
  case (Inr sct)
  with ensure_first[OF assms(1)] have *: "w' = w" "pass = map_index (Data sct) ''pass''"
    "rootpass = map_index (Data sct) ''rootpass''" by simp_all
  from Inr have "Secrets w (namespace p, namePrefix p @ ''-pgsql-access-data'') = Some sct"
    by (auto simp: client_Get_Secret_def split: option.splits)
  with assms(2-5) * have "client_Get_Secret w'' (namespace q, namePrefix q @ ''-pgsql-access-data'') = Inr sct"
    by (simp add: client_Get_Secret_def)
  from ensure_found[OF this] * show ?thesis by simp
next
  case (Inl err)
  with ensure_first[OF assms(1)] obtain sct where
    "Secrets w' (namespace p, namePrefix p @ ''-pgsql-access-data'') = Some sct"
    "Data sct ''pass'' = Some pass" "Data sct ''rootpass'' = Some rootpass"
    by auto
  with assms(2-5) have "client_Get_Secret w'' (namespace q, namePrefix q @ ''-pgsql-access-data'') = Inr sct"
    and "map_index (Data sct) ''pass'' = pass" "map_index (Data sct) ''rootpass'' = rootpass"
    by (simp_all add: client_Get_Secret_def map_index_def)
  with ensure_found[of w'' q sct] show ?thesis by simp
qed

lemma Advertise_creds:
  assumes "ensurePsqlSecretData p w = (Inr (pass, rootpass), w')"
    and "Overlay (Postgres.KustCtrl p) \<noteq> ScaleDownOverlay"
    and "Overlay (Postgres.KustCtrl p) \<noteq> NotAppliedOverlay"
  shows "\<exists>ad. Postgres_Advertise p w = ((ad, None), w')
            \<and> Get ad ''dbpass'' = pass \<and> Get ad ''dbrootpass'' = rootpass"
  using assms by (simp add: Postgres_Advertise_def Let_def Put_def Get_def Ads_zero_def map_index_def)

lemma Postgres_mutateKustomization_creds:
  assumes "ensurePsqlSecretData p w = (Inr (pass, rootpass), w')"
  shows "Postgres_mutateKustomization p w kust ad =
     (Inr (kust\<lparr>NamePrefix := namePrefix p @ ''-'',
                SecretGenerator := [(''postgres-config-secret'',
                  [''database-username=user'', ''database-name=database'',
                   ''database-password='' @ pass,
                   ''database-root-password='' @ rootpass])]\<rparr>), w')"
  using assms by (simp add: Postgres_mutateKustomization_def)

lemma credential_stable_after:
  assumes "ensurePsqlSecretData p w = (Inr (pass, rootpass), w')"
    and "namespace q = namespace p" and "namePrefix q = namePrefix p"
    and "Secrets w'' (namespace p, namePrefix p @ ''-pgsql-access-data'')
           = Secrets w' (namespace p, namePrefix p @ ''-pgsql-access-data'')"
    and "Faults w'' VGet ''Secret'' = None"
  shows
    "(case client_Get_Secret w (namespace p, namePrefix p @ ''-pgsql-access-data'') of
        Inr sct \<Rightarrow> w' = w \<and> pass = map_index (Data sct) ''pass''
                    \<and> rootpass = map_index (Data sct) ''rootpass''
      | Inl err \<Rightarrow> IsNotFound err
            \<and> Secrets w (namespace p, namePrefix p @ ''-pgsql-access-data'') = None
            \<and> pass = Rand w (RandPos w) \<and> rootpass = Rand w (Suc (RandPos w))
            \<and> RandPos w' = Suc (Suc (RandPos w)) \<and> Faults w' = Faults w
            \<and> (\<exists>sct. Secrets w' (namespace p, namePrefix p @ ''-pgsql-access-data'') = Some sct
                  \<and> Data sct ''pass'' = Some pass \<and> Data sct ''rootpass'' = Some rootpass))
   \<and> ensurePsqlSecretData q w'' = (Inr (pass, rootpass), w'')
   \<and> Postgres_mutateKustomization (PgFields.truncate q) w'' kust ad =
       (Inr (kust\<lparr>NamePrefix := namePrefix q @ ''-'',
                  SecretGenerator := [(''postgres-config-secret'',
                    [''database-username=user'', ''database-name=database'',
                     ''database-password='' @ pass,
                     ''database-root-password='' @ rootpass])]\<rparr>), w'')
   \<and> (Overlay (Postgres.KustCtrl q) \<noteq> ScaleDownOverlay
        \<and> Overlay (Postgres.KustCtrl q) \<noteq> NotAppliedOverlay
       \<longrightarrow> (\<exists>ad. Postgres_Advertise q w'' = ((ad, None), w'')
              \<and> Get ad ''dbpass'' = pass \<and> Get ad ''dbrootpass'' = rootpass))"
proof -
  have later: "ensurePsqlSecretData q w'' = (Inr (pass, rootpass), w'')"
    by (rule ensure_later [OF assms])
  have "ensurePsqlSecretData (PgFields.truncate q) w'' = (Inr (pass, rootpass), w'')"
    using assms(2,3) by (intro ensure_later [OF assms(1) _ _ assms(4,5)])
      (simp_all add: PgFields.truncate_def)
  from Postgres_mutateKustomization_creds [OF this, of kust ad]
  have mut: "Postgres_mutateKustomization (PgFields.truncate q) w'' kust ad =
       (Inr (kust\<lparr>NamePrefix := namePrefix q @ ''-'',
                  SecretGenerator := [(''postgres-config-secret'',
                    [''database-username=user'', ''database-name=database'',
                     ''database-password='' @ pass,
                     ''database-root-password='' @ rootpass])]\<rparr>), w'')"
    by (simp add: PgFields.truncate_def)
  show ?thesis
    using ensure_first [OF assms(1)] later mut Advertise_creds [OF later] by blast
qed

lemma ensure_creates:
  assumes "Faults w VGet ''Secret'' = None"
    and "Secrets w (namespace p, namePrefix p @ ''-pgsql-access-data'') = None"
    and "Faults w VCreate ''Secret'' = None"
  shows "ensurePsqlSecretData p w =
     (Inr (Rand w (RandPos w), Rand w (Suc (RandPos w))),
      w\<lparr>Secrets := (Secrets w)((namespace p, namePrefix p @ ''-pgsql-access-data'') \<mapsto>
           \<lparr>Name = namePrefix p @ ''-pgsql-access-data'', Namespace = namespace p, UID = [],
            OwnerReferences = (case ownerRef p of None \<Rightarrow> [] | Some oref \<Rightarrow> [oref]),
            Data = [''pass'' \<mapsto> Rand w (RandPos w), ''rootpass'' \<mapsto> Rand w (Suc (RandPos w))],
            StringData = Map.empty\<rparr>),
         RandPos := Suc (Suc (RandPos w))\<rparr>)"
  using assms
  by (simp add: ensurePsqlSecretData_def client_Get_Secret_def not_found_def uuid_New_def
      client_Create_Secret_def Let_def map_index_def)

text \<open>
  C3. When the store holds no secret for the component and the read and the create are
  answered, the credential routine draws the next two random values, stores them in a new
  secret and returns them. When the read finds the secret, the routine returns the stored
  \<open>pass\<close> and \<open>rootpass\<close> and leaves the store and the random source as they were. And a
  call that has returned \<open>pass\<close> and \<open>rootpass\<close> has done the one or the other; after it, in
  every state that still holds that secret and answers the read, the routine (for the same
  namespace and name prefix) returns the same two values and changes nothing, the
  template-level mutator writes them into the generated secret, and \<open>Advertise\<close> publishes
  them as \<open>dbpass\<close> and \<open>dbrootpass\<close>.
\<close>

theorem C3_credential_stability:
  "(Faults w VGet ''Secret'' = None
      \<and> Secrets w (namespace p, namePrefix p @ ''-pgsql-access-data'') = None
      \<and> Faults w VCreate ''Secret'' = None
     \<longrightarrow> ensurePsqlSecretData p w =
         (Inr (Rand w (RandPos w), Rand w (Suc (RandPos w))),
          w\<lparr>Secrets := (Secrets w)((namespace p, namePrefix p @ ''-pgsql-access-data'') \<mapsto>
               \<lparr>Name = namePrefix p @ ''-pgsql-access-data'', Namespace = namespace p, UID = [],
                OwnerReferences = (case ownerRef p of None \<Rightarrow> [] | Some oref \<Rightarrow> [oref]),
                Data = [''pass'' \<mapsto> Rand w (RandPos w),
                        ''rootpass'' \<mapsto> Rand w (Suc (RandPos w))],
                StringData = Map.empty\<rparr>),
             RandPos := Suc (Suc (RandPos w))\<rparr>))
   \<and> (client_Get_Secret w (namespace p, namePrefix p @ ''-pgsql-access-data'') = Inr sct
     \<longrightarrow> ensurePsqlSecretData p w =
         (Inr (map_index (Data sct) ''pass'', map_index (Data sct) ''rootpass''), w))
   \<and> (ensurePsqlSecretData p w = (Inr (pass, rootpass), w')
      \<and> namespace q = namespace p \<and> namePrefix q = namePrefix p
      \<and> Secrets w'' (namespace p, namePrefix p @ ''-pgsql-access-data'')
           = Secrets w' (namespace p, namePrefix p @ ''-pgsql-access-data'')
      \<and> Faults w'' VGet ''Secret'' = None
     \<longrightarrow>
      (case client_Get_Secret w (namespace p, namePrefix p @ ''-pgsql-access-data'') of
        Inr sct \<Rightarrow> w' = w \<and> pass = map_index (Data sct) ''pass''
                    \<and> rootpass = map_index (Data sct) ''rootpass''
      | Inl err \<Rightarrow> IsNotFound err
            \<and> Secrets w (namespace p, namePrefix p @ ''-pgsql-access-data'') = None
            \<and> pass = Rand w (RandPos w) \<and> rootpass = Rand w (Suc (RandPos w))
            \<and> RandPos w' = Suc (Suc (RandPos w)) \<and> Faults w' = Faults w
            \<and> (\<exists>sct. Secrets w' (namespace p, namePrefix p @ ''-pgsql-access-data'') = Some sct
                  \<and> Data sct ''pass'' = Some pass \<and> Data sct ''rootpass'' = Some rootpass))
      \<and> ensurePsqlSecretData q w'' = (Inr (pass, rootpass), w'')
      \<and> Postgres_mutateKustomization (PgFields.truncate q) w'' kust ad =
          (Inr (kust\<lparr>NamePrefix := namePrefix q @ ''-'',
                     SecretGenerator := [(''postgres-config-secret'',
                       [''database-username=user'', ''database-name=database'',
                        ''database-password='' @ pass,
                        ''database-root-password='' @ rootpass])]\<rparr>), w'')
      \<and> (Overlay (Postgres.KustCtrl q) \<noteq> ScaleDownOverlay
           \<and> Overlay (Postgres.KustCtrl q) \<noteq> NotAppliedOverlay
          \<longrightarrow> (\<exists>ad. Postgres_Advertise q w'' = ((ad, None), w'')
                 \<and> Get ad ''dbpass'' = pass \<and> Get ad ''dbrootpass'' = rootpass)))"
  (is "?A \<and> ?B \<and> (?H \<longrightarrow> ?D)")
proof -
  have creates: "?A"
    using ensure_creates [of w p] by simp
  have reads: "?B"
    using ensure_found [of w p sct] by simp
  have stable: "?H \<longrightarrow> ?D"
  proof (rule impI)
    assume "ensurePsqlSecretData p w = (Inr (pass, rootpass), w')
      \<and> namespace q = namespace p \<and> namePrefix q = namePrefix p
      \<and> Secrets w'' (namespace p, namePrefix p @ ''-pgsql-access-data'')
           = Secrets w' (namespace p, namePrefix p @ ''-pgsql-access-data'')
      \<and> Faults w'' VGet ''Secret'' = None"
    then have a: "ensurePsqlSecretData p w = (Inr (pass, rootpass), w')"
      and b: "namespace q = namespace p" and c: "namePrefix q = namePrefix p"
      and d: "Secrets w'' (namespace p, namePrefix p @ ''-pgsql-access-data'')
             = Secrets w' (namespace p, namePrefix p @ ''-pgsql-access-data'')"
      and e: "Faults w'' VGet ''Secret'' = None"
      by simp_all
    show "?D" by (rule credential_stable_after [OF a b c d e])
  qed
  show ?thesis by (rule conjI [OF creates conjI [OF reads stable]])
qed

lemma ex_w1_get:
  "client_Get_Secret ex_w1 (''ns'', ''pg-pgsql-access-data'') = Inr ex_sct"
  by (simp add: client_Get_Secret_def ex_w1_def ex_world_def ex_sct_def)

lemma ex_w0_facts:
  "Rand ex_w0 (RandPos ex_w0) = ''uuid-''" "Rand ex_w0 (Suc (RandPos ex_w0)) = ''uuid-x''"
  "Faults ex_w0 VGet ''Secret'' = None" "Faults ex_w0 VCreate ''Secret'' = None"
  "Secrets ex_w0 (''ns'', ''pg-pgsql-access-data'') = None"
  "Faults ex_w1 VGet ''Secret'' = None"
  by (simp_all add: ex_w0_def ex_w1_def ex_world_def)

theorem C3_credential_stability_witness:
  "ensurePsqlSecretData (ex_pg ''base'') ex_w0 = (Inr (''uuid-'', ''uuid-x''), ex_w1)
   \<and> ensurePsqlSecretData (ex_pg ''base'') ex_w1 = (Inr (''uuid-'', ''uuid-x''), ex_w1)
   \<and> RandPos ex_w0 = 0 \<and> RandPos ex_w1 = 2
   \<and> (\<exists>ad. Postgres_Advertise (ex_pg ''base'') ex_w1 = ((ad, None), ex_w1)
          \<and> Get ad ''dbpass'' = ''uuid-'' \<and> Get ad ''dbrootpass'' = ''uuid-x'')"
proof -
  have first: "ensurePsqlSecretData (ex_pg ''base'') ex_w0 = (Inr (''uuid-'', ''uuid-x''), ex_w1)"
    using C3_credential_stability [THEN conjunct1, of ex_w0 "ex_pg ''base''"]
    by (simp add: ex_pg_simps ex_w0_facts) (simp add: ex_w0_def ex_w1_def ex_world_def
        numeral_2_eq_2)
  have again: "ensurePsqlSecretData (ex_pg ''base'') ex_w1 = (Inr (''uuid-'', ''uuid-x''), ex_w1)"
    using C3_credential_stability [THEN conjunct2, THEN conjunct1, of ex_w1 "ex_pg ''base''" ex_sct]
    by (simp add: ex_pg_simps ex_w1_get) (simp add: ex_sct_def map_index_def)
  have later: "\<exists>ad. Postgres_Advertise (ex_pg ''base'') ex_w1 = ((ad, None), ex_w1)
          \<and> Get ad ''dbpass'' = ''uuid-'' \<and> Get ad ''dbrootpass'' = ''uuid-x''"
    using C3_credential_stability [THEN conjunct2, THEN conjunct2, of "ex_pg ''base''" ex_w0 "''uuid-''"
        "''uuid-x''" ex_w1 "ex_pg ''base''" ex_w1] first
    by (simp add: ex_pg_simps ex_w0_facts ScaleDownOverlay_def NotAppliedOverlay_def)
  show ?thesis
    using first again later by (simp add: ex_w0_def ex_w1_def ex_world_def)
qed

section \<open>Before the first Apply\<close>

lemma Postgres_Option_overlay:
  "overlay (Postgres.KustCtrl (Postgres_Option opt p)) = overlay (Postgres.KustCtrl p)"
  by (cases opt) simp_all

lemma Redis_Option_overlay:
  "overlay (Redis.KustCtrl (Redis_Option opt r)) = overlay (Redis.KustCtrl r)"
  by (cases opt) simp_all

lemma Clair_Option_overlay:
  "overlay (Clair.KustCtrl (Clair_Option opt c)) = overlay (Clair.KustCtrl c)"
  by (cases opt) simp_all

lemma Postgres_options_overlay:
  "overlay (Postgres.KustCtrl (foldl (\<lambda>pg opt. Postgres_Option opt pg) p opts))
     = overlay (Postgres.KustCtrl p)"
  by (induction opts arbitrary: p) (simp_all add: Postgres_Option_overlay)

lemma Redis_options_overlay:
  "overlay (Redis.KustCtrl (foldl (\<lambda>rs opt. Redis_Option opt rs) r opts))
     = overlay (Redis.KustCtrl r)"
  by (induction opts arbitrary: r) (simp_all add: Redis_Option_overlay)

lemma Clair_options_overlay:
  "overlay (Clair.KustCtrl (foldl (\<lambda>cl opt. Clair_Option opt cl) c opts))
     = overlay (Clair.KustCtrl c)"
  by (induction opts arbitrary: c) (simp_all add: Clair_Option_overlay)

lemma New_overlay:
  "Overlay (Postgres.KustCtrl (Postgres_New kf opts)) = NotAppliedOverlay"
  "Overlay (Redis.KustCtrl (Redis_New kf opts)) = NotAppliedOverlay"
  "Overlay (Clair.KustCtrl (Clair_New cx opts)) = NotAppliedOverlay"
  by (simp_all add: Postgres_New_def Redis_New_def Clair_New_def Let_def Overlay_def
      Postgres_options_overlay Redis_options_overlay Clair_options_overlay NewKustCtrl_def
      NotAppliedOverlay_def)

text \<open>
  C5. A scanning component fresh from \<open>New\<close> has the overlay "" and its \<open>Advertise\<close>
  returns an \<^verbatim>\<open>Ads\<close> that holds the key \<open>clair-addr\<close>: it tests "scale-down" only.
\<close>

theorem C5_clair_advertises_before_apply:
  "Overlay (Clair.KustCtrl (Clair_New cx [])) = NotAppliedOverlay
   \<and> Clair_Advertise (Clair_New cx [])
       = (\<lparr>dict = Some [''clair-addr'' \<mapsto> ''undefined-clair.default'']\<rparr>, None)"
  by (simp add: New_overlay Clair_Advertise_def ScaleDownOverlay_def NotAppliedOverlay_def
      Let_def Put_def Ads_zero_def)
    (simp add: Clair_New_def Let_def)




section \<open>Apply: the order of the mutators and the first failure\<close>

lemma KMutators_loop_fails:
  assumes "KMutators_loop pre self w kust ad = (Inr kust1, w1)"
    and "m self w1 kust1 ad = (Inl e, w2)"
  shows "KMutators_loop (pre @ m # post) self w kust ad
           = (Inl (Wrapf ''error mutating kustomization: '' e), w2)"
  using assms
  by (induction pre arbitrary: w kust) (auto split: prod.splits sum.splits)

lemma OMutators_loop_fails:
  assumes "OMutators_loop pre w obj = (Inr obj1, w1)"
    and "m w1 obj1 = (Inl e, w2)"
  shows "OMutators_loop (pre @ m # post) w obj = (Inl (Wrapf ''error mutating object: '' e), w2)"
  using assms
  by (induction pre arbitrary: w obj) (auto split: prod.splits sum.splits)

lemma objs_loop_append:
  assumes "objs_loop ext k w pre = (None, w1)"
  shows "objs_loop ext k w (pre @ rest) = objs_loop ext k w1 rest"
  using assms
  by (induction pre arbitrary: w) (auto split: prod.splits sum.splits option.splits)

text \<open>
  C8. \<open>Apply\<close> calls the template-level mutators in the order of \<open>KMutators\<close>: when the
  mutators registered before \<open>km\<close> succeed one after the other and \<open>km\<close> fails on what they
  have made, \<open>Apply\<close> fails with the error of \<open>km\<close> in the state \<open>km\<close> has left, whatever
  mutators are registered after it, and no object is mutated or submitted. The object-level
  mutators are called object by object in the order of \<open>OMutators\<close>: when the objects before
  \<open>obj\<close> have been mutated and submitted, and on \<open>obj\<close> the mutators registered before \<open>m\<close>
  succeed and \<open>m\<close> fails, \<open>Apply\<close> fails with the error of \<open>m\<close> in the state \<open>m\<close> has left:
  no later mutator and no later object is reached, and what the earlier submissions have
  done to the state stays.
\<close>

theorem C8_mutators_in_order_fail_fast:
  "(fsloader_Load ext (from' k) = Inr fs
      \<and> fs_ReadFile ext fs BaseKustomizationPath = Inr olddt
      \<and> yaml_Unmarshal ext olddt = Inr kust
      \<and> KMutators k = kpre @ km # kpost
      \<and> KMutators_loop kpre self w kust ad = (Inr kust1, w1)
      \<and> km self w1 kust1 ad = (Inl e, w2)
     \<longrightarrow> Apply ext self k w ovl ad =
          (Some (Wrapf ''error parsing kustomize files: ''
             (Wrapf ''error setting object name prefix: ''
             (Wrapf ''error mutating kustomization: '' e))), k, w2))
   \<and> (parse ext self k w ovl ad = (Inr (opre @ obj # opost), v0)
      \<and> objs_loop ext k v0 opre = (None, v1)
      \<and> OMutators k = mpre @ m # mpost
      \<and> OMutators_loop mpre v1 obj = (Inr obj1, v2)
      \<and> m v2 obj1 = (Inl e', v3)
     \<longrightarrow> Apply ext self k w ovl ad = (Some (Wrapf ''error mutating object: '' e'), k, v3))"
proof (intro conjI impI)
  assume h: "fsloader_Load ext (from' k) = Inr fs
      \<and> fs_ReadFile ext fs BaseKustomizationPath = Inr olddt
      \<and> yaml_Unmarshal ext olddt = Inr kust
      \<and> KMutators k = kpre @ km # kpost
      \<and> KMutators_loop kpre self w kust ad = (Inr kust1, w1)
      \<and> km self w1 kust1 ad = (Inl e, w2)"
  then have "KMutators_loop (KMutators k) self w kust ad
               = (Inl (Wrapf ''error mutating kustomization: '' e), w2)"
    using KMutators_loop_fails [of kpre self w kust ad kust1 w1 km e w2 kpost] by simp
  with h show "Apply ext self k w ovl ad =
          (Some (Wrapf ''error parsing kustomize files: ''
             (Wrapf ''error setting object name prefix: ''
             (Wrapf ''error mutating kustomization: '' e))), k, w2)"
    by (simp add: Apply_def parse_def mutateKustomization_def)
next
  assume h: "parse ext self k w ovl ad = (Inr (opre @ obj # opost), v0)
      \<and> objs_loop ext k v0 opre = (None, v1)
      \<and> OMutators k = mpre @ m # mpost
      \<and> OMutators_loop mpre v1 obj = (Inr obj1, v2)
      \<and> m v2 obj1 = (Inl e', v3)"
  then have "OMutators_loop (OMutators k) v1 obj = (Inl (Wrapf ''error mutating object: '' e'), v3)"
    using OMutators_loop_fails [of mpre v1 obj obj1 v2 m e' v3 mpost] by simp
  then have "objs_loop ext k v1 (obj # opost) = (Some (Wrapf ''error mutating object: '' e'), v3)"
    by simp
  with h have "objs_loop ext k v0 (opre @ obj # opost)
                 = (Some (Wrapf ''error mutating object: '' e'), v3)"
    using objs_loop_append [of ext k v0 opre v1 "obj # opost"] by simp
  with h show "Apply ext self k w ovl ad = (Some (Wrapf ''error mutating object: '' e'), k, v3)"
    by (simp add: Apply_def)
qed

lemma ex_parse:
  "parse (ex_ext ex_resources traced_Patch) () (ex_kust_ctrl False oname) [] ''base'' Ads_zero
     = (Inr [ex_obj ''a'' corev1_Secret, ex_obj ''b'' appsv1_Deployment,
             ex_obj ''c'' corev1_Service],
        [KCall ''first'', KCall ''second'', KCall ''third''])"
  by (simp add: parse_def ex_ext_def ex_kust_ctrl_def NewKustCtrl_def ex_kfiles_def
      mutateKustomization_def BaseKustomizationPath_def ex_K1_def ex_K2_def ex_K3_def
      traced_K_def ex_resources_def ToObject_def switch_Gvk_def zero_Object_def ex_obj_def)

theorem C8_mutators_in_order_fail_fast_witness:
  "Apply (ex_ext ex_resources traced_Patch) () (ex_kust_ctrl True []) [] ''base'' Ads_zero
     = (Some (Wrapf ''error parsing kustomize files: ''
          (Wrapf ''error setting object name prefix: ''
          (Wrapf ''error mutating kustomization: '' (Errorf ''boom'')))),
        ex_kust_ctrl True [], [KCall ''first'', KCall ''second''])
   \<and> Apply (ex_ext ex_resources traced_Patch) () (ex_kust_ctrl False ''b'') [] ''base'' Ads_zero
     = (Some (Wrapf ''error mutating object: '' (Errorf ''bad object'')),
        ex_kust_ctrl False ''b'',
        [KCall ''first'', KCall ''second'', KCall ''third'',
         OCall ''first'', OCall ''second'', OCall ''third'',
         Submit ((ex_obj ''a'' corev1_Secret)\<lparr>Namespace := ''ns''\<rparr>),
         OCall ''first'', OCall ''second''])"
proof -
  let ?ext = "ex_ext ex_resources traced_Patch"
  have a: "fsloader_Load ?ext (from' (ex_kust_ctrl True [])) = Inr (map_of ex_kfiles)
      \<and> fs_ReadFile ?ext (map_of ex_kfiles) BaseKustomizationPath = Inr ''resources: []''
      \<and> yaml_Unmarshal ?ext ''resources: []''
           = Inr \<lparr>NamePrefix = [], SecretGenerator = [], Others = ''resources: []''\<rparr>
      \<and> KMutators (ex_kust_ctrl True []) = [ex_K1] @ ex_K2 True # [ex_K3]
      \<and> KMutators_loop [ex_K1] () [] \<lparr>NamePrefix = [], SecretGenerator = [],
             Others = ''resources: []''\<rparr> Ads_zero
           = (Inr \<lparr>NamePrefix = ''x-'', SecretGenerator = [], Others = ''resources: []''\<rparr>,
              [KCall ''first''])
      \<and> ex_K2 True () [KCall ''first''] \<lparr>NamePrefix = ''x-'', SecretGenerator = [],
             Others = ''resources: []''\<rparr> Ads_zero
           = (Inl (Errorf ''boom''), [KCall ''first'', KCall ''second''])"
    by (simp add: ex_ext_def ex_kust_ctrl_def NewKustCtrl_def ex_kfiles_def
        BaseKustomizationPath_def ex_K1_def ex_K2_def traced_K_def)
  have b: "parse ?ext () (ex_kust_ctrl False ''b'') [] ''base'' Ads_zero
         = (Inr ([ex_obj ''a'' corev1_Secret] @ ex_obj ''b'' appsv1_Deployment
                  # [ex_obj ''c'' corev1_Service]),
            [KCall ''first'', KCall ''second'', KCall ''third''])
      \<and> objs_loop ?ext (ex_kust_ctrl False ''b'') [KCall ''first'', KCall ''second'', KCall ''third'']
           [ex_obj ''a'' corev1_Secret]
         = (None, [KCall ''first'', KCall ''second'', KCall ''third'',
                   OCall ''first'', OCall ''second'', OCall ''third'',
                   Submit ((ex_obj ''a'' corev1_Secret)\<lparr>Namespace := ''ns''\<rparr>)])
      \<and> OMutators (ex_kust_ctrl False ''b'') = [ex_O1] @ ex_O2 ''b'' # [ex_O3]
      \<and> OMutators_loop [ex_O1]
           [KCall ''first'', KCall ''second'', KCall ''third'',
            OCall ''first'', OCall ''second'', OCall ''third'',
            Submit ((ex_obj ''a'' corev1_Secret)\<lparr>Namespace := ''ns''\<rparr>)]
           (ex_obj ''b'' appsv1_Deployment)
         = (Inr ((ex_obj ''b'' appsv1_Deployment)\<lparr>Namespace := ''ns''\<rparr>),
            [KCall ''first'', KCall ''second'', KCall ''third'',
             OCall ''first'', OCall ''second'', OCall ''third'',
             Submit ((ex_obj ''a'' corev1_Secret)\<lparr>Namespace := ''ns''\<rparr>), OCall ''first''])
      \<and> ex_O2 ''b''
           [KCall ''first'', KCall ''second'', KCall ''third'',
            OCall ''first'', OCall ''second'', OCall ''third'',
            Submit ((ex_obj ''a'' corev1_Secret)\<lparr>Namespace := ''ns''\<rparr>), OCall ''first'']
           ((ex_obj ''b'' appsv1_Deployment)\<lparr>Namespace := ''ns''\<rparr>)
         = (Inl (Errorf ''bad object''),
            [KCall ''first'', KCall ''second'', KCall ''third'',
             OCall ''first'', OCall ''second'', OCall ''third'',
             Submit ((ex_obj ''a'' corev1_Secret)\<lparr>Namespace := ''ns''\<rparr>),
             OCall ''first'', OCall ''second''])"
    by (simp add: ex_parse)
      (simp add: ex_ext_def ex_kust_ctrl_def NewKustCtrl_def ex_O1_def ex_O2_def ex_O3_def
        traced_O_def traced_Patch_def ex_obj_def)
  from a b show ?thesis
    using C8_mutators_in_order_fail_fast [THEN conjunct1, rule_format, OF a, of "''base''"]
      C8_mutators_in_order_fail_fast [THEN conjunct2, rule_format, OF b]
    by simp
qed

section \<open>Apply: decoding the rendered objects\<close>

lemma switch_Gvk_None_iff:
  "switch_Gvk g = None \<longleftrightarrow>
     g \<notin> {\<lparr>Group = [], Version = ''v1'', Kind = ''Secret''\<rparr>,
           \<lparr>Group = [], Version = ''v1'', Kind = ''Service''\<rparr>,
           \<lparr>Group = [], Version = ''v1'', Kind = ''ServiceAccount''\<rparr>,
           \<lparr>Group = [], Version = ''v1'', Kind = ''PersistentVolumeClaim''\<rparr>,
           \<lparr>Group = ''apps'', Version = ''v1'', Kind = ''Deployment''\<rparr>,
           \<lparr>Group = ''autoscaling'', Version = ''v2beta2'', Kind = ''HorizontalPodAutoscaler''\<rparr>}"
  by (simp add: switch_Gvk_def)

lemma ToObject_unmapped:
  "switch_Gvk (GetGvk rsc) = None \<Longrightarrow>
     ToObject ext rsc = Inl (Errorf (''unmapped type '' @ fmt_Gvk ext (GetGvk rsc)))"
  by (simp add: ToObject_def)

lemma Resources_loop_fails:
  assumes "ToObject ext rsc = Inl e"
  shows "\<exists>err. Resources_loop ext (pre @ rsc # post) objs = Inl (Wrapf ''error parsing object: '' err)"
  using assms by (induction pre arbitrary: objs) (auto split: sum.splits)

lemma Resources_loop_fails_first:
  assumes "ToObject ext rsc = Inl e" and "\<forall>r\<in>set pre. \<not> isl (ToObject ext r)"
  shows "Resources_loop ext (pre @ rsc # post) objs = Inl (Wrapf ''error parsing object: '' e)"
  using assms by (induction pre arbitrary: objs) (auto split: sum.splits)

text \<open>
  C9. A rendered object whose \<^verbatim>\<open>Gvk\<close> is none of the six mapped ones is refused by
  \<open>ToObject\<close> with the error "unmapped type ..."; when the compositor yields such an object,
  \<open>Apply\<close> fails while parsing, in the state the template-level mutators have left (no
  object-level mutator has run and nothing is submitted), and the controller is unchanged.
  When the objects rendered before it decode, the error of \<open>Apply\<close> is that "unmapped type"
  error.
\<close>

theorem C9_unmapped_type_fails_apply:
  assumes "GetGvk rsc \<notin>
          {\<lparr>Group = [], Version = ''v1'', Kind = ''Secret''\<rparr>,
           \<lparr>Group = [], Version = ''v1'', Kind = ''Service''\<rparr>,
           \<lparr>Group = [], Version = ''v1'', Kind = ''ServiceAccount''\<rparr>,
           \<lparr>Group = [], Version = ''v1'', Kind = ''PersistentVolumeClaim''\<rparr>,
           \<lparr>Group = ''apps'', Version = ''v1'', Kind = ''Deployment''\<rparr>,
           \<lparr>Group = ''autoscaling'', Version = ''v2beta2'', Kind = ''HorizontalPodAutoscaler''\<rparr>}"
  shows
    "ToObject ext rsc = Inl (Errorf (''unmapped type '' @ fmt_Gvk ext (GetGvk rsc)))
   \<and> (fsloader_Load ext (from' k) = Inr fs
       \<and> mutateKustomization ext self k w fs ad = (Inr fs', w1)
       \<and> krusty_Run ext fs' (path_Join ext ''kustomize'' ovl) = Inr (pre @ rsc # post)
      \<longrightarrow> (\<exists>err. Apply ext self k w ovl ad =
              (Some (Wrapf ''error parsing kustomize files: ''
                 (Wrapf ''error parsing object: '' err)), k, w1))
          \<and> ((\<forall>r\<in>set pre. \<not> isl (ToObject ext r))
              \<longrightarrow> Apply ext self k w ovl ad =
                    (Some (Wrapf ''error parsing kustomize files: ''
                       (Wrapf ''error parsing object: ''
                       (Errorf (''unmapped type '' @ fmt_Gvk ext (GetGvk rsc))))), k, w1)))"
proof -
  from assms have un: "ToObject ext rsc = Inl (Errorf (''unmapped type '' @ fmt_Gvk ext (GetGvk rsc)))"
    by (intro ToObject_unmapped) (simp only: switch_Gvk_None_iff, simp)
  show ?thesis
    using un Resources_loop_fails [OF un, of pre post "[]"]
      Resources_loop_fails_first [OF un, of pre post "[]"]
    by (auto simp: Apply_def parse_def)
qed

theorem C9_unmapped_type_fails_apply_witness:
  "ToObject (ex_ext (ex_resources @ [ex_job]) traced_Patch) ex_job
     = Inl (Errorf ''unmapped type batch_v1_Job'')
   \<and> Apply (ex_ext (ex_resources @ [ex_job]) traced_Patch) () (ex_kust_ctrl False []) []
        ''base'' Ads_zero
     = (Some (Wrapf ''error parsing kustomize files: '' (Wrapf ''error parsing object: ''
          (Errorf ''unmapped type batch_v1_Job''))),
        ex_kust_ctrl False [], [KCall ''first'', KCall ''second'', KCall ''third''])"
proof -
  let ?ext = "ex_ext (ex_resources @ [ex_job]) traced_Patch"
  have h: "fsloader_Load ?ext (from' (ex_kust_ctrl False [])) = Inr (map_of ex_kfiles)
       \<and> mutateKustomization ?ext () (ex_kust_ctrl False []) [] (map_of ex_kfiles) Ads_zero
           = (Inr ((map_of ex_kfiles)(BaseKustomizationPath \<mapsto> ''x-resources: []'')),
              [KCall ''first'', KCall ''second'', KCall ''third''])
       \<and> krusty_Run ?ext ((map_of ex_kfiles)(BaseKustomizationPath \<mapsto> ''x-resources: []''))
            (path_Join ?ext ''kustomize'' ''base'') = Inr (ex_resources @ ex_job # [])"
    by (simp add: ex_ext_def ex_kust_ctrl_def NewKustCtrl_def ex_kfiles_def
        mutateKustomization_def BaseKustomizationPath_def ex_K1_def ex_K2_def ex_K3_def
        traced_K_def)
  have p: "\<forall>r\<in>set ex_resources. \<not> isl (ToObject ?ext r)"
    by (simp add: ex_resources_def ToObject_def switch_Gvk_def ex_ext_def)
  show ?thesis
    using C9_unmapped_type_fails_apply [of ex_job ?ext "ex_kust_ctrl False []"
        "map_of ex_kfiles" "()" "[]" Ads_zero
        "(map_of ex_kfiles)(BaseKustomizationPath \<mapsto> ''x-resources: []'')"
        "[KCall ''first'', KCall ''second'', KCall ''third'']" "''base''" ex_resources "[]"]
      h p
    by (simp add: ex_job_def) (simp add: ex_ext_def)
qed

lemma Apply_overlay:
  assumes "Apply ext self k w ovl ad = (err, k', w')"
  shows "(case err of
            None \<Rightarrow> k' = k\<lparr>overlay := ovl\<rparr>
                    \<and> (\<exists>objs w1. parse ext self k w ovl ad = (Inr objs, w1)
                          \<and> objs_loop ext k w1 objs = (None, w'))
          | Some e \<Rightarrow> k' = k)"
  using assms by (auto simp: Apply_def split: prod.splits sum.splits option.splits)

section \<open>The advertisements the scanning component needs\<close>

lemma Contains_loop_filter:
  "Contains_loop a indexes missing = missing @ filter (\<lambda>idx. \<not> dict_ok a idx) indexes"
  by (induction indexes arbitrary: missing) simp_all

lemma Contains_missing:
  "Contains a indexes =
     (if filter (\<lambda>idx. \<not> dict_ok a idx) indexes = [] then None
      else Some (Errorf (strings_Join (filter (\<lambda>idx. \<not> dict_ok a idx) indexes) '',''
                  @ '' indexes not advertised'')))"
  by (simp add: Contains_def Contains_loop_filter Let_def)

lemma Clair_Option_KMutators:
  "KMutators (Clair.KustCtrl (Clair_Option opt c)) = KMutators (Clair.KustCtrl c)"
  "from' (Clair.KustCtrl (Clair_Option opt c)) = from' (Clair.KustCtrl c)"
  by (cases opt; simp)+

lemma Clair_options_KMutators:
  "KMutators (Clair.KustCtrl (foldl (\<lambda>cl opt. Clair_Option opt cl) c opts))
     = KMutators (Clair.KustCtrl c)"
  by (induction opts arbitrary: c) (simp_all add: Clair_Option_KMutators)

lemma Clair_New_KMutators:
  "KMutators (Clair.KustCtrl (Clair_New cx opts)) = [Clair_mutateKustomization cx]"
  by (simp add: Clair_New_def Let_def Clair_options_KMutators NewKustCtrl_def)

lemma Clair_mutate_missing:
  assumes "filter (\<lambda>idx. \<not> dict_ok ads idx)
             [''dbhost'', ''dbport'', ''dbname'', ''dbrootuser'', ''dbrootpass''] = missing"
    and "missing \<noteq> []"
  shows "Clair_mutateKustomization cx c w kust ads =
     (Inl (Wrapf ''unable to build clair config: '' (Wrapf ''missing advertised data: ''
        (Errorf (strings_Join missing '','' @ '' indexes not advertised'')))), w)"
  using assms
  by (simp add: Clair_mutateKustomization_def buildClairConfig_def Contains_missing Let_def)

lemma parse_Clair_missing_fails:
  assumes "filter (\<lambda>idx. \<not> dict_ok ads idx)
             [''dbhost'', ''dbport'', ''dbname'', ''dbrootuser'', ''dbrootpass''] = missing"
    and "missing \<noteq> []"
    and "KMutators k = [Clair_mutateKustomization cx]"
  shows "\<exists>err. parse ext self k w ovl ads = (Inl err, w)"
  using assms(3) Clair_mutate_missing [OF assms(1,2)]
  by (auto simp: parse_def mutateKustomization_def split: sum.splits)

lemma parse_Clair_missing_error:
  assumes "filter (\<lambda>idx. \<not> dict_ok ads idx)
             [''dbhost'', ''dbport'', ''dbname'', ''dbrootuser'', ''dbrootpass''] = missing"
    and "missing \<noteq> []"
    and "KMutators k = [Clair_mutateKustomization cx]"
    and "fsloader_Load ext (from' k) = Inr fs"
    and "fs_ReadFile ext fs BaseKustomizationPath = Inr olddt"
    and "yaml_Unmarshal ext olddt = Inr kust"
  shows "parse ext self k w ovl ads =
     (Inl (Wrapf ''error setting object name prefix: ''
          (Wrapf ''error mutating kustomization: ''
          (Wrapf ''unable to build clair config: '' (Wrapf ''missing advertised data: ''
          (Errorf (strings_Join missing '','' @ '' indexes not advertised'')))))), w)"
  using assms(3-6) Clair_mutate_missing [OF assms(1,2)]
  by (simp add: parse_def mutateKustomization_def)

lemma Clair_Apply_parse_fails:
  assumes "parse ext (Fields.truncate c) (Clair.KustCtrl c) w ovl ads = (Inl err, w')"
  shows "Clair_Apply ext c w ovl ads = (Some (Wrapf ''error parsing kustomize files: '' err), c, w')"
  using assms by (simp add: Clair_Apply_def Apply_def)

text \<open>
  C4. Let \<open>missing\<close> be those of the five required keys that the \<^verbatim>\<open>Ads\<close> lacks, in their order.
  The check \<open>Contains\<close> succeeds when none is missing and otherwise fails with one error that
  names them all, joined by commas. When some key is missing, \<open>Apply\<close> of a scanning component
  made by \<open>New\<close> fails and leaves the component and the state untouched, so nothing is
  submitted; when the base kustomization is loaded, read and decoded, its error is the error
  of \<open>Contains\<close> wrapped on the way up.
\<close>

theorem C4_missing_advertisements:
  assumes "filter (\<lambda>idx. \<not> dict_ok ads idx)
             [''dbhost'', ''dbport'', ''dbname'', ''dbrootuser'', ''dbrootpass''] = missing"
  shows
    "Contains ads [''dbhost'', ''dbport'', ''dbname'', ''dbrootuser'', ''dbrootpass''] =
       (if missing = [] then None
        else Some (Errorf (strings_Join missing '','' @ '' indexes not advertised'')))
   \<and> (missing \<noteq> []
      \<longrightarrow> (\<exists>err. Clair_Apply ext (Clair_New cx opts) w ovl ads
                  = (Some err, Clair_New cx opts, w)))
   \<and> (missing \<noteq> []
       \<and> fsloader_Load ext (from' (Clair.KustCtrl (Clair_New cx opts))) = Inr fs
       \<and> fs_ReadFile ext fs BaseKustomizationPath = Inr olddt
       \<and> yaml_Unmarshal ext olddt = Inr kust
      \<longrightarrow> Clair_Apply ext (Clair_New cx opts) w ovl ads =
           (Some (Wrapf ''error parsing kustomize files: ''
              (Wrapf ''error setting object name prefix: ''
              (Wrapf ''error mutating kustomization: ''
              (Wrapf ''unable to build clair config: ''
              (Wrapf ''missing advertised data: ''
              (Errorf (strings_Join missing '','' @ '' indexes not advertised''))))))),
            Clair_New cx opts, w))"
proof (intro conjI impI)
  show "Contains ads [''dbhost'', ''dbport'', ''dbname'', ''dbrootuser'', ''dbrootpass''] =
       (if missing = [] then None
        else Some (Errorf (strings_Join missing '','' @ '' indexes not advertised'')))"
    by (simp only: Contains_missing assms)
next
  assume m: "missing \<noteq> []"
  from parse_Clair_missing_fails [OF assms m Clair_New_KMutators]
  obtain err where
    "parse ext (Fields.truncate (Clair_New cx opts)) (Clair.KustCtrl (Clair_New cx opts))
       w ovl ads = (Inl err, w)"
    by fast
  from Clair_Apply_parse_fails [OF this]
  show "\<exists>err. Clair_Apply ext (Clair_New cx opts) w ovl ads = (Some err, Clair_New cx opts, w)"
    by (rule exI)
next
  assume h: "missing \<noteq> []
       \<and> fsloader_Load ext (from' (Clair.KustCtrl (Clair_New cx opts))) = Inr fs
       \<and> fs_ReadFile ext fs BaseKustomizationPath = Inr olddt
       \<and> yaml_Unmarshal ext olddt = Inr kust"
  then have m: "missing \<noteq> []"
    and l: "fsloader_Load ext (from' (Clair.KustCtrl (Clair_New cx opts))) = Inr fs"
    and r: "fs_ReadFile ext fs BaseKustomizationPath = Inr olddt"
    and u: "yaml_Unmarshal ext olddt = Inr kust"
    by (rule conjunct1, rule conjunct2 [THEN conjunct1],
        rule conjunct2 [THEN conjunct2, THEN conjunct1],
        rule conjunct2 [THEN conjunct2, THEN conjunct2])
  from Clair_Apply_parse_fails
    [OF parse_Clair_missing_error [OF assms m Clair_New_KMutators l r u]]
  show "Clair_Apply ext (Clair_New cx opts) w ovl ads =
           (Some (Wrapf ''error parsing kustomize files: ''
              (Wrapf ''error setting object name prefix: ''
              (Wrapf ''error mutating kustomization: ''
              (Wrapf ''unable to build clair config: ''
              (Wrapf ''missing advertised data: ''
              (Errorf (strings_Join missing '','' @ '' indexes not advertised''))))))),
            Clair_New cx opts, w)" .
qed

lemma ex_ads_missing:
  "filter (\<lambda>idx. \<not> dict_ok ex_ads idx)
     [''dbhost'', ''dbport'', ''dbname'', ''dbrootuser'', ''dbrootpass'']
   = [''dbport'', ''dbrootuser'', ''dbrootpass'']"
  by (simp add: ex_ads_def Put_def Ads_zero_def dict_ok_def Let_def)

lemma ex_Clair_load:
  "fsloader_Load (ex_ext ex_resources ex_patch) (from' (Clair.KustCtrl (Clair_New ex_cx [])))
     = Inr (map_of ex_kfiles)"
  "fs_ReadFile (ex_ext ex_resources ex_patch) (map_of ex_kfiles) BaseKustomizationPath
     = Inr ''resources: []''"
  "yaml_Unmarshal (ex_ext ex_resources ex_patch) ''resources: []''
     = Inr \<lparr>NamePrefix = [], SecretGenerator = [], Others = ''resources: []''\<rparr>"
  by (simp_all add: Clair_New_def Let_def NewKustCtrl_def ex_cx_def ex_ext_def ex_kfiles_def
      BaseKustomizationPath_def)

theorem C4_missing_advertisements_witness:
  "Contains ex_ads [''dbhost'', ''dbport'', ''dbname'', ''dbrootuser'', ''dbrootpass'']
     = Some (Errorf ''dbport,dbrootuser,dbrootpass indexes not advertised'')
   \<and> Clair_Apply (ex_ext ex_resources ex_patch) (Clair_New ex_cx []) (ex_world Map.empty [])
        ''base'' ex_ads
     = (Some (Wrapf ''error parsing kustomize files: ''
          (Wrapf ''error setting object name prefix: ''
          (Wrapf ''error mutating kustomization: ''
          (Wrapf ''unable to build clair config: ''
          (Wrapf ''missing advertised data: ''
          (Errorf ''dbport,dbrootuser,dbrootpass indexes not advertised'')))))),
        Clair_New ex_cx [], ex_world Map.empty [])"
  using C4_missing_advertisements [OF ex_ads_missing, of "ex_ext ex_resources ex_patch" ex_cx "[]"
      "ex_world Map.empty []" "''base''" "map_of ex_kfiles" "''resources: []''"
      "\<lparr>NamePrefix = [], SecretGenerator = [], Others = ''resources: []''\<rparr>"]
  by (simp add: ex_Clair_load)

section \<open>Apply: the current overlay\<close>

text \<open>
  C7. A new controller, and each component fresh from \<open>New\<close> whatever its options, has the
  overlay "". \<open>Apply\<close> leaves the controller as it was whenever it returns an error; when it
  returns none, parsing and the loop over the objects have both succeeded and the only change
  to the controller is that its overlay is the requested one.
\<close>

theorem C7_overlay_set_only_by_successful_apply:
  "Overlay (NewKustCtrl emb) = NotAppliedOverlay
   \<and> Overlay (Postgres.KustCtrl (Postgres_New kf opts)) = NotAppliedOverlay
   \<and> Overlay (Redis.KustCtrl (Redis_New kf opts)) = NotAppliedOverlay
   \<and> Overlay (Clair.KustCtrl (Clair_New cx opts)) = NotAppliedOverlay
   \<and> (Apply ext self k w ovl ad = (err, k', w')
      \<longrightarrow> (case err of
             None \<Rightarrow> k' = k\<lparr>overlay := ovl\<rparr>
                     \<and> (\<exists>objs w1. parse ext self k w ovl ad = (Inr objs, w1)
                           \<and> objs_loop ext k w1 objs = (None, w'))
           | Some e \<Rightarrow> k' = k))"
  using Apply_overlay [of ext self k w ovl ad err k' w'] New_overlay
  by (simp add: Overlay_def NewKustCtrl_def NotAppliedOverlay_def)

lemma ex_objs_loop_ok:
  "objs_loop (ex_ext ex_resources traced_Patch) (ex_kust_ctrl False ''z'') w
      [ex_obj ''a'' corev1_Secret, ex_obj ''b'' appsv1_Deployment, ex_obj ''c'' corev1_Service]
    = (None, w @
        [OCall ''first'', OCall ''second'', OCall ''third'',
         Submit ((ex_obj ''a'' corev1_Secret)\<lparr>Namespace := ''ns''\<rparr>),
         OCall ''first'', OCall ''second'', OCall ''third'',
         Submit ((ex_obj ''b'' appsv1_Deployment)\<lparr>Namespace := ''ns''\<rparr>),
         OCall ''first'', OCall ''second'', OCall ''third'',
         Submit ((ex_obj ''c'' corev1_Service)\<lparr>Namespace := ''ns''\<rparr>)])"
  by (simp add: ex_ext_def ex_kust_ctrl_def NewKustCtrl_def ex_O1_def ex_O2_def ex_O3_def
      traced_O_def traced_Patch_def ex_obj_def)

lemma ex_Apply_ok:
  "Apply (ex_ext ex_resources traced_Patch) () (ex_kust_ctrl False ''z'') [] ''base'' Ads_zero
    = (None, (ex_kust_ctrl False ''z'')\<lparr>overlay := ''base''\<rparr>,
       [KCall ''first'', KCall ''second'', KCall ''third'',
        OCall ''first'', OCall ''second'', OCall ''third'',
        Submit ((ex_obj ''a'' corev1_Secret)\<lparr>Namespace := ''ns''\<rparr>),
        OCall ''first'', OCall ''second'', OCall ''third'',
        Submit ((ex_obj ''b'' appsv1_Deployment)\<lparr>Namespace := ''ns''\<rparr>),
        OCall ''first'', OCall ''second'', OCall ''third'',
        Submit ((ex_obj ''c'' corev1_Service)\<lparr>Namespace := ''ns''\<rparr>)])"
  by (simp del: objs_loop.simps add: Apply_def ex_parse ex_objs_loop_ok)

lemma ex_Apply_patch_fails:
  "Apply (ex_ext ex_resources (\<lambda>w obj fo. (Some (Errorf ''conflict''), w @ [Submit obj]))) ()
      (ex_kust_ctrl False ''z'') [] ''base'' Ads_zero
    = (Some (Wrapf ''error patching object: '' (Errorf ''conflict'')), ex_kust_ctrl False ''z'',
       [KCall ''first'', KCall ''second'', KCall ''third'',
        OCall ''first'', OCall ''second'', OCall ''third'',
        Submit ((ex_obj ''a'' corev1_Secret)\<lparr>Namespace := ''ns''\<rparr>)])"
  by (simp add: Apply_def parse_def ex_ext_def ex_kust_ctrl_def NewKustCtrl_def ex_kfiles_def
      mutateKustomization_def BaseKustomizationPath_def ex_K1_def ex_K2_def ex_K3_def
      traced_K_def ex_resources_def ToObject_def switch_Gvk_def zero_Object_def ex_obj_def
      ex_O1_def ex_O2_def ex_O3_def traced_O_def)

theorem C7_overlay_set_only_by_successful_apply_witness:
  "overlay (ex_kust_ctrl False ''z'') = []
   \<and> overlay (fst (snd (Apply (ex_ext ex_resources traced_Patch) ()
        (ex_kust_ctrl False ''z'') [] ''base'' Ads_zero))) = ''base''
   \<and> overlay (fst (snd (Apply
        (ex_ext ex_resources (\<lambda>w obj fo. (Some (Errorf ''conflict''), w @ [Submit obj]))) ()
        (ex_kust_ctrl False ''z'') [] ''base'' Ads_zero))) = []"
  using
    C7_overlay_set_only_by_successful_apply [where ext = "ex_ext ex_resources traced_Patch"
      and self = "()" and k = "ex_kust_ctrl False ''z''" and w = "[]" and ovl = "''base''"
      and ad = Ads_zero]
    C7_overlay_set_only_by_successful_apply [where
      ext = "ex_ext ex_resources (\<lambda>w obj fo. (Some (Errorf ''conflict''), w @ [Submit obj]))"
      and self = "()" and k = "ex_kust_ctrl False ''z''" and w = "[]" and ovl = "''base''"
      and ad = Ads_zero]
  by (simp add: ex_Apply_ok ex_Apply_patch_fails) (simp add: ex_kust_ctrl_def NewKustCtrl_def)

end
